theory Spec2Isabelle
  imports Main "HOL-Library.Word" "HOL-Library.AList"
begin

section \<open>The root context's allocator (global.ts, Global.constructor)\<close>

text \<open>
  The allocator closure of \<^verbatim>\<open>Global.constructor\<close> shares one \<^verbatim>\<open>memoryStats\<close> object with the
  root context. Pointers and sizes arrive as numbers; a pointer is truthy when it is not 0.
  \<^verbatim>\<open>memoryMax\<close> is optional: \<^verbatim>\<open>None\<close> stands for \<^verbatim>\<open>undefined\<close>.
\<close>

record LuaMemoryStats =
  memoryUsed :: int
  memoryMax :: "int option"

text \<open>
  The allocator has three return statements: \<^verbatim>\<open>null\<close> after \<^verbatim>\<open>_free\<close>, \<^verbatim>\<open>null\<close> from the
  ceiling check, and the value of \<^verbatim>\<open>_realloc\<close> (0 when the host heap is exhausted).
\<close>

datatype alloc_outcome = Freed | Rejected | Reallocated int

text \<open>The value handed back to the VM: \<^verbatim>\<open>None\<close> is \<^verbatim>\<open>null\<close>.\<close>

fun returned :: "alloc_outcome \<Rightarrow> int option" where
  "returned Freed = None"
| "returned Rejected = None"
| "returned (Reallocated p) = Some p"

text \<open>
  \<^verbatim>\<open>memoryStats.memoryMax && endMemory > memoryStats.memoryMax\<close>: an undefined or zero ceiling
  is falsy and switches the check off.
\<close>

definition exceedsMax :: "int option \<Rightarrow> int \<Rightarrow> bool" where
  "exceedsMax mx endMemory = (case mx of None \<Rightarrow> False | Some m \<Rightarrow> m \<noteq> 0 \<and> endMemory > m)"

text \<open>
  The first argument is what \<^verbatim>\<open>cmodule.module._realloc(pointer, newSize)\<close> returns when it is
  called; the host heap itself is outside the model.
\<close>

definition allocator ::
  "int \<Rightarrow> LuaMemoryStats \<Rightarrow> int \<Rightarrow> int \<Rightarrow> int \<Rightarrow> alloc_outcome \<times> LuaMemoryStats" where
  "allocator reallocated memoryStats pointer oldSize newSize =
     (if newSize = 0 \<and> pointer \<noteq> 0 then (Freed, memoryStats)
      else
        let increasing = (pointer \<noteq> 0 \<or> newSize > oldSize);
            endMemoryDelta = (if pointer \<noteq> 0 then newSize - oldSize else newSize);
            endMemory = memoryUsed memoryStats + endMemoryDelta
        in if increasing \<and> exceedsMax (memoryMax memoryStats) endMemory then (Rejected, memoryStats)
           else if reallocated \<noteq> 0
             then (Reallocated reallocated, memoryStats\<lparr>memoryUsed := endMemory\<rparr>)
             else (Reallocated reallocated, memoryStats))"

text \<open>\<^verbatim>\<open>setMemoryMax\<close> stores the ceiling without looking at the current usage.\<close>

definition setMemoryMax :: "int option \<Rightarrow> LuaMemoryStats \<Rightarrow> LuaMemoryStats" where
  "setMemoryMax mx memoryStats = memoryStats\<lparr>memoryMax := mx\<rparr>"

text \<open>
  A request as the VM issues it, together with the answer of the host \<^verbatim>\<open>_realloc\<close>:
  (reallocated, pointer, oldSize, newSize).
\<close>

type_synonym request = "int \<times> int \<times> int \<times> int"

fun serve :: "LuaMemoryStats \<Rightarrow> request list \<Rightarrow> LuaMemoryStats" where
  "serve memoryStats [] = memoryStats"
| "serve memoryStats ((r, p, osz, nsz) # reqs) = serve (snd (allocator r memoryStats p osz nsz)) reqs"

text \<open>
  The requests whose growth the allocator recognises: a block that already exists, or a new block
  that is larger than the number passed as its old size, or a request for no memory at all.
\<close>

fun recognised :: "request \<Rightarrow> bool" where
  "recognised (r, p, osz, nsz) = (p \<noteq> 0 \<or> osz < nsz \<or> nsz \<le> 0)"


section \<open>Host values\<close>

type_synonym LuaState = nat
type_synonym addr = nat

text \<open>
  A \<^verbatim>\<open>Thread\<close> object. \<^verbatim>\<open>address\<close> and \<^verbatim>\<open>parent\<close> are assigned once in the constructor, so a
  thread value carries them; its mutable fields \<^verbatim>\<open>closed\<close> and \<^verbatim>\<open>continuance\<close> live in the state
  under the object's identity \<open>ident\<close>. \<open>isGlobal\<close> marks an instance of the subclass \<^verbatim>\<open>Global\<close>.
\<close>

datatype thread = Thread (ident: nat) (address: LuaState) (parent: "thread option") (isGlobal: bool)

text \<open>
  A host number is a double. \<^verbatim>\<open>Number.isInteger\<close> separates the integral doubles, written
  \<open>Integer n\<close>, from the others (fractions, NaN, the infinities), written \<open>NonInteger t\<close> and
  identified by the text \<open>t\<close> that \<^verbatim>\<open>String\<close> prints for them.
\<close>

datatype jsnumber = Integer int | NonInteger string

datatype jsvalue =
    JUndefined
  | JNull
  | JNumber jsnumber
  | JString string
  | JBoolean bool
  | JObject addr
  | JThread thread
  | JSymbol nat
  | JBigInt int

text \<open>
  What a promise settles with. \<open>Then p c\<close> is the promise \<^verbatim>\<open>p.then(x => { results = x })\<close> of
  \<^verbatim>\<open>pushValue\<close>, where \<open>c\<close> names the captured variable \<^verbatim>\<open>results\<close>.
\<close>

datatype fate = Fulfils jsvalue | Rejects jsvalue | NeverSettles

datatype promise = Settles fate | Then promise nat

datatype array_class = PlainArray | MultiReturn

text \<open>
  Objects of the host heap. A plain object lists its enumerable properties in the order
  \<^verbatim>\<open>for (const key in target)\<close> visits them. \<open>DecorationObject target options\<close> is an instance of
  \<^verbatim>\<open>Decoration\<close>; \<open>PointerObject\<close> an instance of \<^verbatim>\<open>Pointer\<close>; \<open>FunctionObject src\<close> a host function
  with source text \<open>src\<close>; \<open>JsFuncObject t func\<close> the async wrapper \<^verbatim>\<open>jsFunc\<close> that \<^verbatim>\<open>getValue\<close> builds on
  thread \<open>t\<close> for registry slot \<open>func\<close>.
\<close>

datatype hostobj =
    PlainObject "(string \<times> jsvalue) list"
  | ArrayObject array_class "jsvalue list"
  | PromiseObject promise
  | DecorationObject jsvalue jsvalue
  | PointerObject nat
  | FunctionObject string
  | JsFuncObject thread nat

type_synonym hostheap = "(addr \<times> hostobj) list"

datatype jstype = TUndefined | TObject | TNumber | TString | TBoolean | TFunction | TSymbol | TBigInt

fun typeof :: "hostheap \<Rightarrow> jsvalue \<Rightarrow> jstype" where
  "typeof H JUndefined = TUndefined"
| "typeof H JNull = TObject"
| "typeof H (JNumber x) = TNumber"
| "typeof H (JString x) = TString"
| "typeof H (JBoolean b) = TBoolean"
| "typeof H (JObject a) =
     (case map_of H a of
        Some (FunctionObject src) \<Rightarrow> TFunction
      | Some (JsFuncObject t func) \<Rightarrow> TFunction
      | _ \<Rightarrow> TObject)"
| "typeof H (JThread t) = TObject"
| "typeof H (JSymbol x) = TSymbol"
| "typeof H (JBigInt n) = TBigInt"

subsection \<open>Property keys\<close>

text \<open>
  \<^verbatim>\<open>options._done[target]\<close> indexes a plain object with a host value, so the value is turned
  into a property key: a symbol stays a symbol, everything else becomes its string.
\<close>

datatype propkey = KString string | KSymbol nat

function showNat :: "nat \<Rightarrow> string" where
  "showNat n = (if n < 10 then [''0123456789'' ! n] else showNat (n div 10) @ [''0123456789'' ! (n mod 10)])"
  by pat_completeness auto
termination
  by (relation "measure id") auto

definition showInt :: "int \<Rightarrow> string" where
  "showInt i = (if i < 0 then CHR ''-'' # showNat (nat (- i)) else showNat (nat i))"

fun joinWith :: "string \<Rightarrow> string list \<Rightarrow> string" where
  "joinWith sep [] = []"
| "joinWith sep [x] = x"
| "joinWith sep (x # y # ys) = x @ sep @ joinWith sep (y # ys)"

definition jsFuncSource :: string where
  "jsFuncSource = ''async (...args) => { [jsFunc] }''"

text \<open>
  \<^verbatim>\<open>String(v)\<close>; \<open>None\<close> is the TypeError of converting a symbol. An array prints its elements
  joined by commas, \<^verbatim>\<open>undefined\<close> and \<^verbatim>\<open>null\<close> as nothing, and an array met again while it is
  being printed as nothing (\<open>seen\<close> holds the arrays being printed). Objects print through
  \<^verbatim>\<open>Object.prototype.toString\<close>; a \<^verbatim>\<open>toString\<close> of their own is not modelled. Integers print in
  decimal, which is what the host does below \<open>10\<^sup>2\<^sup>1\<close>.
\<close>

function toStringJS :: "hostheap \<Rightarrow> addr list \<Rightarrow> jsvalue \<Rightarrow> string option" where
  "toStringJS H seen JUndefined = Some ''undefined''"
| "toStringJS H seen JNull = Some ''null''"
| "toStringJS H seen (JNumber (Integer n)) = Some (showInt n)"
| "toStringJS H seen (JNumber (NonInteger t)) = Some t"
| "toStringJS H seen (JString t) = Some t"
| "toStringJS H seen (JBoolean b) = Some (if b then ''true'' else ''false'')"
| "toStringJS H seen (JThread t) = Some ''[object Object]''"
| "toStringJS H seen (JSymbol x) = None"
| "toStringJS H seen (JBigInt n) = Some (showInt n)"
| "toStringJS H seen (JObject a) =
     (case map_of H a of
        Some (ArrayObject c xs) \<Rightarrow>
          if a \<in> set seen then Some []
          else map_option (joinWith '','')
                 (those (map (\<lambda>x. if x = JUndefined \<or> x = JNull then Some []
                                    else toStringJS H (a # seen) x) xs))
      | Some (PromiseObject p) \<Rightarrow> Some ''[object Promise]''
      | Some (PointerObject n) \<Rightarrow> Some (showNat n)
      | Some (FunctionObject src) \<Rightarrow> Some src
      | Some (JsFuncObject t func) \<Rightarrow> Some jsFuncSource
      | _ \<Rightarrow> Some ''[object Object]'')"
  by pat_completeness auto
termination
  by (relation "measure (\<lambda>(H, seen, v). card (fst ` set H - set seen))")
     (auto intro!: psubset_card_mono dest!: map_of_SomeD simp: rev_image_eqI)

definition toPropertyKey :: "hostheap \<Rightarrow> jsvalue \<Rightarrow> propkey option" where
  "toPropertyKey H v =
     (case v of JSymbol x \<Rightarrow> Some (KSymbol x) | _ \<Rightarrow> map_option KString (toStringJS H [] v))"


section \<open>The guest VM as a stack machine\<close>

text \<open>
  The VM is reached through \<^verbatim>\<open>cmodule\<close>, whose bindings are not part of the sources at hand.
  The operations below follow the reference manual of the VM's C interface, as far as the bridge
  depends on them; metamethods, the collector and allocation failures are left out.
  The enumerations of \<^verbatim>\<open>types.ts\<close> are those of the VM's header: \<^verbatim>\<open>LuaType.Nil\<close> is 0 and therefore
  falsy, \<^verbatim>\<open>LuaType.None\<close> is -1.
\<close>

datatype LuaType =
    TypeNone | TypeNil | TypeBoolean | TypeLightUserData | TypeNumber | TypeString
  | TypeTable | TypeFunction | TypeUserData | TypeThread

datatype LuaReturn = Ok | Yield | ErrorRun | ErrorSyntax | ErrorMem | ErrorErr | ErrorFile

record LuaResumeResult =
  result :: LuaReturn
  resultCount :: int

datatype LuaMetatables = FunctionReference | JsReference | Promise

text \<open>
  Guest values. A guest integer has 64 bits; a guest float is a double, that is, any host number.
  Tables, functions and userdata are references into the VM's object store.
\<close>

datatype lvalue =
    LNil
  | LBoolean bool
  | LLightUserData nat
  | LInteger "64 word"
  | LFloat jsnumber
  | LString string
  | LTable nat
  | LFunction nat
  | LUserData nat
  | LThread LuaState

text \<open>
  A table keeps its entries in traversal order and has an optional metatable; a userdata block
  holds the one pointer-sized value the bridge writes into it; a C closure holds an index of the
  function table and its upvalues.
\<close>

datatype lobject =
    TableObj "(lvalue \<times> lvalue) list" "nat option"
  | UserDataObj nat "nat option"
  | CClosureObj nat "lvalue list"
  | LuaClosureObj

fun typeOfValue :: "lvalue \<Rightarrow> LuaType" where
  "typeOfValue LNil = TypeNil"
| "typeOfValue (LBoolean b) = TypeBoolean"
| "typeOfValue (LLightUserData p) = TypeLightUserData"
| "typeOfValue (LInteger i) = TypeNumber"
| "typeOfValue (LFloat x) = TypeNumber"
| "typeOfValue (LString t) = TypeString"
| "typeOfValue (LTable a) = TypeTable"
| "typeOfValue (LFunction a) = TypeFunction"
| "typeOfValue (LUserData a) = TypeUserData"
| "typeOfValue (LThread L) = TypeThread"

text \<open>
  The closures the bridge registers with \<^verbatim>\<open>addFunction\<close>, each with the variables it captures:
  \<open>PushedFunction this target raw await decorations\<close> for the callback of \<^verbatim>\<open>pushValue\<close>, and
  \<open>ContinuanceFn this calledL raw results\<close> for the continuation it installs.
\<close>

datatype callable =
    AllocatorFn
  | FunctionGcFn
  | JsRefGcFn
  | PromiseGcFn
  | PushedFunction thread jsvalue bool bool "jsvalue option"
  | ContinuanceFn thread LuaState bool nat

record state =
  stacks :: "LuaState \<rightharpoonup> lvalue list"
  objects :: "nat \<rightharpoonup> lobject"
  nextObject :: nat
  metatables :: "LuaMetatables \<rightharpoonup> nat"
  registry :: "int \<rightharpoonup> lvalue"
  nextRef :: int
  nextState :: LuaState
  luaClosed :: bool
  resumes :: nat
  functionTable :: "nat \<rightharpoonup> callable"
  freeTableIndexes :: "nat list"
  tableLength :: nat
  references :: "nat \<rightharpoonup> jsvalue"
  nextReference :: nat
  heap :: hostheap
  nextAddr :: addr
  closed :: "nat \<Rightarrow> bool"
  continuance :: "nat \<rightharpoonup> nat"
  nextIdent :: nat
  results :: "nat \<rightharpoonup> jsvalue"
  nextResults :: nat

subsection \<open>Stack access\<close>

definition stackOf :: "state \<Rightarrow> LuaState \<Rightarrow> lvalue list" where
  "stackOf s L = (case stacks s L of None \<Rightarrow> [] | Some st \<Rightarrow> st)"

definition setStack :: "LuaState \<Rightarrow> lvalue list \<Rightarrow> state \<Rightarrow> state" where
  "setStack L st s = s\<lparr>stacks := (stacks s)(L \<mapsto> st)\<rparr>"

text \<open>
  A positive index counts from the bottom (1 is the first slot), a negative one from the top
  (-1 is the top slot). An index outside the stack, 0 and the pseudo-indices name no slot.
\<close>

definition absIndex :: "lvalue list \<Rightarrow> int \<Rightarrow> nat option" where
  "absIndex st idx =
     (let n = int (length st)
      in if 0 < idx \<and> idx \<le> n then Some (nat (idx - 1))
         else if idx < 0 \<and> - idx \<le> n then Some (nat (n + idx))
         else None)"

definition index2value :: "state \<Rightarrow> LuaState \<Rightarrow> int \<Rightarrow> lvalue option" where
  "index2value s L idx = map_option (\<lambda>i. stackOf s L ! i) (absIndex (stackOf s L) idx)"

definition lua_type :: "state \<Rightarrow> LuaState \<Rightarrow> int \<Rightarrow> LuaType" where
  "lua_type s L idx = (case index2value s L idx of None \<Rightarrow> TypeNone | Some v \<Rightarrow> typeOfValue v)"

definition lua_gettop :: "state \<Rightarrow> LuaState \<Rightarrow> int" where
  "lua_gettop s L = int (length (stackOf s L))"

definition lua_push :: "LuaState \<Rightarrow> lvalue \<Rightarrow> state \<Rightarrow> state" where
  "lua_push L v s = setStack L (stackOf s L @ [v]) s"

definition lua_pushnil :: "LuaState \<Rightarrow> state \<Rightarrow> state" where
  "lua_pushnil L s = lua_push L LNil s"

text \<open>The integer is stored in the VM's 64-bit representation.\<close>

definition lua_pushinteger :: "LuaState \<Rightarrow> int \<Rightarrow> state \<Rightarrow> state" where
  "lua_pushinteger L n s = lua_push L (LInteger (word_of_int n)) s"

definition lua_pushnumber :: "LuaState \<Rightarrow> jsnumber \<Rightarrow> state \<Rightarrow> state" where
  "lua_pushnumber L x s = lua_push L (LFloat x) s"

text \<open>The VM receives a zero-terminated string, so it keeps what stands before the first NUL.\<close>

definition lua_pushstring :: "LuaState \<Rightarrow> string \<Rightarrow> state \<Rightarrow> state" where
  "lua_pushstring L t s = lua_push L (LString (takeWhile (\<lambda>c. c \<noteq> CHR 0x00) t)) s"

definition lua_pushboolean :: "LuaState \<Rightarrow> bool \<Rightarrow> state \<Rightarrow> state" where
  "lua_pushboolean L b s = lua_push L (LBoolean b) s"

definition lua_pushvalue :: "LuaState \<Rightarrow> int \<Rightarrow> state \<Rightarrow> state" where
  "lua_pushvalue L idx s =
     lua_push L (case index2value s L idx of None \<Rightarrow> LNil | Some v \<Rightarrow> v) s"

definition lua_pushthread :: "LuaState \<Rightarrow> state \<Rightarrow> state" where
  "lua_pushthread L s = lua_push L (LThread L) s"

definition lua_pop :: "LuaState \<Rightarrow> int \<Rightarrow> state \<Rightarrow> state" where
  "lua_pop L n s = setStack L (take (length (stackOf s L) - nat n) (stackOf s L)) s"

definition lua_remove :: "LuaState \<Rightarrow> int \<Rightarrow> state \<Rightarrow> state" where
  "lua_remove L idx s =
     (case absIndex (stackOf s L) idx of
        None \<Rightarrow> s
      | Some i \<Rightarrow> setStack L (take i (stackOf s L) @ drop (Suc i) (stackOf s L)) s)"

definition lua_toboolean :: "state \<Rightarrow> LuaState \<Rightarrow> int \<Rightarrow> bool" where
  "lua_toboolean s L idx =
     (case index2value s L idx of
        None \<Rightarrow> False
      | Some LNil \<Rightarrow> False
      | Some (LBoolean b) \<Rightarrow> b
      | Some v \<Rightarrow> True)"

text \<open>
  A guest integer converts to the host number of the same value (exact up to \<open>2\<^sup>5\<^sup>3\<close>); anything
  that is not a number gives 0. Strings that spell a number are not converted here.
\<close>

definition lua_tonumberx :: "state \<Rightarrow> LuaState \<Rightarrow> int \<Rightarrow> jsnumber" where
  "lua_tonumberx s L idx =
     (case index2value s L idx of
        Some (LInteger w) \<Rightarrow> Integer (sint w)
      | Some (LFloat x) \<Rightarrow> x
      | _ \<Rightarrow> Integer 0)"

text \<open>A null result of the VM reaches the host as the empty string.\<close>

definition lua_tolstring :: "state \<Rightarrow> LuaState \<Rightarrow> int \<Rightarrow> string" where
  "lua_tolstring s L idx = (case index2value s L idx of Some (LString t) \<Rightarrow> t | _ \<Rightarrow> [])"

definition lua_topointer :: "state \<Rightarrow> LuaState \<Rightarrow> int \<Rightarrow> nat" where
  "lua_topointer s L idx =
     (case index2value s L idx of
        Some (LTable a) \<Rightarrow> a
      | Some (LFunction a) \<Rightarrow> a
      | Some (LUserData a) \<Rightarrow> a
      | Some (LThread L') \<Rightarrow> L'
      | Some (LLightUserData p) \<Rightarrow> p
      | _ \<Rightarrow> 0)"

definition lua_tothread :: "state \<Rightarrow> LuaState \<Rightarrow> int \<Rightarrow> LuaState" where
  "lua_tothread s L idx = (case index2value s L idx of Some (LThread L') \<Rightarrow> L' | _ \<Rightarrow> 0)"

text \<open>\<^verbatim>\<open>luaL_tolstring\<close> pushes a printed form of the value; the bridge pops it unread.\<close>

definition luaL_tolstring :: "LuaState \<Rightarrow> int \<Rightarrow> state \<Rightarrow> state" where
  "luaL_tolstring L idx s = lua_push L (LString (lua_tolstring s L idx)) s"


subsection \<open>Errors\<close>

text \<open>
  Every \<^verbatim>\<open>throw\<close> of the bridge, and the failures of what it calls:
  \<open>IndexZero\<close> is "index must be non-zero"; \<open>UnsupportedType ty\<close> is "The type '...' is not
  supported by Lua"; \<open>MetatableNotFound m\<close> is "metatable not found: ..."; \<open>RawNotNumber\<close> and
  \<open>RawPromiseNotNumber\<close> are the two "Must return ..." errors of raw functions;
  \<open>NotAFunction\<close> is "A function of type '...' was pushed"; \<open>LuaError\<close> is what \<^verbatim>\<open>assertOk\<close>
  throws, with the popped message; \<open>TypeError\<close> is the host's own (reading a property of
  \<^verbatim>\<open>undefined\<close>, turning a symbol into a string); \<open>LuaPanic\<close> is an error raised inside the VM
  by an interface call; \<open>Rejection\<close> is \<^verbatim>\<open>await\<close> on a rejected promise; \<open>Thrown\<close> is an
  exception of a host function.
\<close>

datatype error =
    IndexZero
  | UnsupportedType jstype
  | MetatableNotFound LuaMetatables
  | RawNotNumber
  | RawPromiseNotNumber
  | NotAFunction
  | LuaError LuaReturn "string option"
  | TypeError
  | LuaPanic
  | Rejection jsvalue
  | Thrown jsvalue

subsection \<open>Objects of the VM\<close>

definition newObject :: "lobject \<Rightarrow> state \<Rightarrow> nat \<times> state" where
  "newObject ob s =
     (nextObject s, s\<lparr>objects := (objects s)(nextObject s \<mapsto> ob), nextObject := Suc (nextObject s)\<rparr>)"

text \<open>The size hints of \<^verbatim>\<open>lua_createtable\<close> only reserve space.\<close>

definition lua_createtable :: "LuaState \<Rightarrow> state \<Rightarrow> state" where
  "lua_createtable L s = (let (a, s1) = newObject (TableObj [] None) s in lua_push L (LTable a) s1)"

text \<open>
  A new userdata block is pushed and its address returned; \<^verbatim>\<open>module.setValue\<close> and
  \<^verbatim>\<open>module.getValue\<close> write and read the pointer stored in the block.
\<close>

definition lua_newuserdatauv :: "LuaState \<Rightarrow> state \<Rightarrow> nat \<times> state" where
  "lua_newuserdatauv L s =
     (let (a, s1) = newObject (UserDataObj 0 None) s in (a, lua_push L (LUserData a) s1))"

definition module_setValue :: "nat \<Rightarrow> nat \<Rightarrow> state \<Rightarrow> state" where
  "module_setValue ptr v s =
     (case objects s ptr of
        Some (UserDataObj old m) \<Rightarrow> s\<lparr>objects := (objects s)(ptr \<mapsto> UserDataObj v m)\<rparr>
      | _ \<Rightarrow> s)"

definition module_getValue :: "state \<Rightarrow> nat \<Rightarrow> nat" where
  "module_getValue s ptr = (case objects s ptr of Some (UserDataObj v m) \<Rightarrow> v | _ \<Rightarrow> 0)"

definition luaL_getmetatable :: "LuaState \<Rightarrow> LuaMetatables \<Rightarrow> state \<Rightarrow> LuaType \<times> state" where
  "luaL_getmetatable L name s =
     (case metatables s name of
        None \<Rightarrow> (TypeNil, lua_pushnil L s)
      | Some a \<Rightarrow> (TypeTable, lua_push L (LTable a) s))"

text \<open>
  \<^verbatim>\<open>lua_setmetatable\<close> pops a table or nil and makes it the metatable of the value at the index,
  which is resolved before the pop.
\<close>

definition setMeta :: "nat \<Rightarrow> nat option \<Rightarrow> state \<Rightarrow> state" where
  "setMeta a mt s =
     (case objects s a of
        Some (TableObj es old) \<Rightarrow> s\<lparr>objects := (objects s)(a \<mapsto> TableObj es mt)\<rparr>
      | Some (UserDataObj v old) \<Rightarrow> s\<lparr>objects := (objects s)(a \<mapsto> UserDataObj v mt)\<rparr>
      | _ \<Rightarrow> s)"

definition lua_setmetatable :: "LuaState \<Rightarrow> int \<Rightarrow> state \<Rightarrow> state" where
  "lua_setmetatable L idx s =
     (let st = stackOf s L
      in if st = [] then s
         else
           let mt = (case last st of LTable m \<Rightarrow> Some m | _ \<Rightarrow> None);
               s1 = (case index2value s L idx of
                       Some (LTable a) \<Rightarrow> setMeta a mt s
                     | Some (LUserData a) \<Rightarrow> setMeta a mt s
                     | _ \<Rightarrow> s)
           in setStack L (butlast st) s1)"

text \<open>
  A float key with an integral value is stored under the integer; storing nil removes the key.
\<close>

fun normKey :: "lvalue \<Rightarrow> lvalue" where
  "normKey (LFloat (Integer n)) = LInteger (word_of_int n)"
| "normKey k = k"

definition tableSet :: "(lvalue \<times> lvalue) list \<Rightarrow> lvalue \<Rightarrow> lvalue \<Rightarrow> (lvalue \<times> lvalue) list" where
  "tableSet es k v = (if v = LNil then AList.delete k es else AList.update k v es)"

text \<open>
  \<^verbatim>\<open>lua_settable(L, idx)\<close> stores the top value under the key below it into the table at the
  index and pops both; the VM raises an error when the index holds no table or the key is nil
  or NaN.
\<close>

definition lua_settable :: "LuaState \<Rightarrow> int \<Rightarrow> state \<Rightarrow> error + state" where
  "lua_settable L idx s =
     (let st = stackOf s L
      in if length st < 2 then Inl LuaPanic
         else
           let v = last st; k = last (butlast st)
           in case index2value s L idx of
                Some (LTable a) \<Rightarrow>
                  (case objects s a of
                     Some (TableObj es m) \<Rightarrow>
                       if k = LNil \<or> k = LFloat (NonInteger ''NaN'') then Inl LuaPanic
                       else Inr (setStack L (butlast (butlast st))
                                   (s\<lparr>objects := (objects s)(a \<mapsto> TableObj (tableSet es (normKey k) v) m)\<rparr>))
                   | _ \<Rightarrow> Inl LuaPanic)
              | _ \<Rightarrow> Inl LuaPanic)"

text \<open>
  \<^verbatim>\<open>lua_next(L, idx)\<close> pops a key and pushes the entry that follows it in the table at the
  index (resolved before the pop), or pushes nothing and returns \<open>False\<close> after the last entry.
\<close>

definition nextEntry :: "(lvalue \<times> lvalue) list \<Rightarrow> lvalue \<Rightarrow> (lvalue \<times> lvalue) option option" where
  "nextEntry es k =
     (if k = LNil then (case es of [] \<Rightarrow> Some None | e # rest \<Rightarrow> Some (Some e))
      else case dropWhile (\<lambda>e. fst e \<noteq> k) es of
             [] \<Rightarrow> None
           | [e] \<Rightarrow> Some None
           | e # e' # rest \<Rightarrow> Some (Some e'))"

definition lua_next :: "LuaState \<Rightarrow> int \<Rightarrow> state \<Rightarrow> error + (bool \<times> state)" where
  "lua_next L idx s =
     (let st = stackOf s L
      in if st = [] then Inl LuaPanic
         else case index2value s L idx of
                Some (LTable a) \<Rightarrow>
                  (case objects s a of
                     Some (TableObj es m) \<Rightarrow>
                       (case nextEntry es (last st) of
                          None \<Rightarrow> Inl LuaPanic
                        | Some None \<Rightarrow> Inr (False, setStack L (butlast st) s)
                        | Some (Some (k, v)) \<Rightarrow> Inr (True, setStack L (butlast st @ [k, v]) s))
                   | _ \<Rightarrow> Inl LuaPanic)
              | _ \<Rightarrow> Inl LuaPanic)"

definition luaL_testudata :: "state \<Rightarrow> LuaState \<Rightarrow> int \<Rightarrow> LuaMetatables \<Rightarrow> nat option" where
  "luaL_testudata s L idx name =
     (case index2value s L idx of
        Some (LUserData a) \<Rightarrow>
          (case objects s a of
             Some (UserDataObj v (Some m)) \<Rightarrow> if metatables s name = Some m then Some a else None
           | _ \<Rightarrow> None)
      | _ \<Rightarrow> None)"

text \<open>
  \<^verbatim>\<open>luaL_ref\<close> at the registry pops the top value and returns a new integer key for it, or
  \<^verbatim>\<open>LUA_REFNIL\<close> (-1) for nil; \<^verbatim>\<open>lua_rawgeti\<close> at the registry pushes the value under a key.
\<close>

definition luaL_ref :: "LuaState \<Rightarrow> state \<Rightarrow> int \<times> state" where
  "luaL_ref L s =
     (let st = stackOf s L
      in if st = [] \<or> last st = LNil then (- 1, setStack L (butlast st) s)
         else (nextRef s,
               setStack L (butlast st)
                 (s\<lparr>registry := (registry s)(nextRef s \<mapsto> last st), nextRef := nextRef s + 1\<rparr>)))"

definition luaL_unref :: "int \<Rightarrow> state \<Rightarrow> state" where
  "luaL_unref r s = s\<lparr>registry := (registry s)(r := None)\<rparr>"

definition lua_rawgeti :: "LuaState \<Rightarrow> int \<Rightarrow> state \<Rightarrow> LuaType \<times> state" where
  "lua_rawgeti L r s =
     (case registry s r of
        None \<Rightarrow> (TypeNil, lua_pushnil L s)
      | Some v \<Rightarrow> (typeOfValue v, lua_push L v s))"

text \<open>\<^verbatim>\<open>lua_pushcclosure(L, fn, n)\<close> pops \<open>n\<close> values as the upvalues of a new C closure.\<close>

definition lua_pushcclosure :: "LuaState \<Rightarrow> nat \<Rightarrow> nat \<Rightarrow> state \<Rightarrow> state" where
  "lua_pushcclosure L fn n s =
     (let st = stackOf s L;
          (a, s1) = newObject (CClosureObj fn (drop (length st - n) st)) s
      in setStack L (take (length st - n) st @ [LFunction a]) s1)"

definition lua_newthread :: "LuaState \<Rightarrow> state \<Rightarrow> LuaState \<times> state" where
  "lua_newthread L s =
     (let L' = nextState s
      in (L', lua_push L (LThread L') (s\<lparr>stacks := (stacks s)(L' \<mapsto> []), nextState := Suc L'\<rparr>)))"

text \<open>
  \<^verbatim>\<open>lua_close\<close> destroys every stack and object of the VM. The finalizers it runs release
  handles that belong to userdata, never those the root installed itself; they are left out.
\<close>

definition lua_close :: "state \<Rightarrow> state" where
  "lua_close s = s\<lparr>stacks := Map.empty, objects := Map.empty, luaClosed := True\<rparr>"

subsection \<open>The function table of the host module\<close>

text \<open>
  \<^verbatim>\<open>module.addFunction\<close> stores a closure in a free slot of the table (the slot freed last, or
  a new one at the end) and returns the slot; \<^verbatim>\<open>module.removeFunction\<close> clears a slot and puts
  it on the list of free slots.
\<close>

definition addFunction :: "callable \<Rightarrow> state \<Rightarrow> nat \<times> state" where
  "addFunction f s =
     (case freeTableIndexes s of
        [] \<Rightarrow> (tableLength s,
               s\<lparr>functionTable := (functionTable s)(tableLength s \<mapsto> f),
                 tableLength := Suc (tableLength s)\<rparr>)
      | i # rest \<Rightarrow> (i, s\<lparr>functionTable := (functionTable s)(i \<mapsto> f), freeTableIndexes := rest\<rparr>))"

definition removeFunction :: "nat \<Rightarrow> state \<Rightarrow> state" where
  "removeFunction i s =
     s\<lparr>functionTable := (functionTable s)(i := None), freeTableIndexes := i # freeTableIndexes s\<rparr>"

subsection \<open>The reference registry\<close>

text \<open>
  Modelled from the spec: \<^verbatim>\<open>cmodule.ref\<close>, \<^verbatim>\<open>cmodule.unref\<close> and \<^verbatim>\<open>cmodule.getRef\<close> are defined in
  \<^verbatim>\<open>luawasm.ts\<close>, which is not among the sources. The spec describes a table from handles to
  host values: a handle is minted on \<^verbatim>\<open>ref\<close> and retired on \<^verbatim>\<open>unref\<close>, without counting.
\<close>

definition ref :: "jsvalue \<Rightarrow> state \<Rightarrow> nat \<times> state" where
  "ref v s =
     (nextReference s,
      s\<lparr>references := (references s)(nextReference s \<mapsto> v), nextReference := Suc (nextReference s)\<rparr>)"

definition unref :: "nat \<Rightarrow> state \<Rightarrow> state" where
  "unref h s = s\<lparr>references := (references s)(h := None)\<rparr>"

definition getRef :: "state \<Rightarrow> nat \<Rightarrow> jsvalue" where
  "getRef s h = (case references s h of None \<Rightarrow> JUndefined | Some v \<Rightarrow> v)"

subsection \<open>Host objects\<close>

definition newHostObject :: "hostobj \<Rightarrow> state \<Rightarrow> addr \<times> state" where
  "newHostObject ob s =
     (nextAddr s, s\<lparr>heap := AList.update (nextAddr s) ob (heap s), nextAddr := Suc (nextAddr s)\<rparr>)"

text \<open>\<^verbatim>\<open>new Thread(cmodule, L, parent)\<close>: a new identity, not closed, without continuation.\<close>

definition newThreadObject :: "LuaState \<Rightarrow> thread \<Rightarrow> state \<Rightarrow> thread \<times> state" where
  "newThreadObject L p s =
     (Thread (nextIdent s) L (Some p) False,
      s\<lparr>closed := (closed s)(nextIdent s := False),
        continuance := (continuance s)(nextIdent s := None),
        nextIdent := Suc (nextIdent s)\<rparr>)"

text \<open>
  Reading \<^verbatim>\<open>v.name\<close>: a TypeError on \<^verbatim>\<open>undefined\<close> and \<^verbatim>\<open>null\<close>, the own property of a plain
  object or of a decoration, and \<^verbatim>\<open>undefined\<close> otherwise (inherited properties are left out).
\<close>

definition enumerate_props :: "hostheap \<Rightarrow> jsvalue \<Rightarrow> (string \<times> jsvalue) list" where
  "enumerate_props H v =
     (case v of
        JObject a \<Rightarrow>
          (case map_of H a of
             Some (PlainObject ps) \<Rightarrow> ps
           | Some (DecorationObject t opts) \<Rightarrow> [(''target'', t), (''options'', opts)]
           | _ \<Rightarrow> [])
      | _ \<Rightarrow> [])"

definition getProperty :: "hostheap \<Rightarrow> jsvalue \<Rightarrow> string \<Rightarrow> error + jsvalue" where
  "getProperty H v name =
     (if v = JUndefined \<or> v = JNull then Inl TypeError
      else case map_of (enumerate_props H v) name of None \<Rightarrow> Inr JUndefined | Some x \<Rightarrow> Inr x)"


section \<open>The execution context (thread.ts)\<close>

subsection \<open>Stack primitives and small helpers\<close>

definition pop :: "thread \<Rightarrow> int \<Rightarrow> state \<Rightarrow> state" where
  "pop this count s = lua_pop (address this) count s"

definition getTop :: "thread \<Rightarrow> state \<Rightarrow> int" where
  "getTop this s = lua_gettop s (address this)"

definition remove :: "thread \<Rightarrow> int \<Rightarrow> state \<Rightarrow> state" where
  "remove this index s = lua_remove (address this) index s"

text \<open>
  \<^verbatim>\<open>Thread.isClosed\<close> is \<^verbatim>\<open>this.closed || Boolean(this.parent?.isClosed())\<close>; the override of
  \<^verbatim>\<open>Global\<close> puts \<^verbatim>\<open>!this.address ||\<close> in front.
\<close>

fun isClosed :: "state \<Rightarrow> thread \<Rightarrow> bool" where
  "isClosed s (Thread i a p g) =
     ((g \<and> a = 0) \<or> closed s i \<or> (case p of None \<Rightarrow> False | Some q \<Rightarrow> isClosed s q))"

definition newThread :: "thread \<Rightarrow> state \<Rightarrow> thread \<times> state" where
  "newThread this s = (let (a, s1) = lua_newthread (address this) s in newThreadObject a this s1)"

definition stateToThread :: "thread \<Rightarrow> LuaState \<Rightarrow> state \<Rightarrow> thread \<times> state" where
  "stateToThread this L s =
     (case parent this of
        Some p \<Rightarrow> if L = address p then (p, s) else newThreadObject L this s
      | None \<Rightarrow> newThreadObject L this s)"

definition getValueDecorations :: "hostheap \<Rightarrow> jsvalue \<Rightarrow> jsvalue \<times> jsvalue option" where
  "getValueDecorations H v =
     (case v of
        JObject a \<Rightarrow>
          (case map_of H a of
             Some (DecorationObject t opts) \<Rightarrow> (t, Some opts)
           | _ \<Rightarrow> (v, None))
      | _ \<Rightarrow> (v, None))"

text \<open>
  \<open>decorations\<close> is \<open>None\<close> for the empty object \<^verbatim>\<open>{}\<close> that an undecorated value gets, and
  the \<^verbatim>\<open>options\<close> of the decoration otherwise.
\<close>

definition decorationProperty :: "hostheap \<Rightarrow> jsvalue option \<Rightarrow> string \<Rightarrow> error + jsvalue" where
  "decorationProperty H decorations name =
     (case decorations of None \<Rightarrow> Inr JUndefined | Some d \<Rightarrow> getProperty H d name)"

definition promiseOf :: "hostheap \<Rightarrow> jsvalue \<Rightarrow> promise option" where
  "promiseOf H v =
     (case v of
        JObject a \<Rightarrow> (case map_of H a of Some (PromiseObject p) \<Rightarrow> Some p | _ \<Rightarrow> None)
      | _ \<Rightarrow> None)"

definition arrayElements :: "hostheap \<Rightarrow> jsvalue \<Rightarrow> jsvalue list option" where
  "arrayElements H v =
     (case v of
        JObject a \<Rightarrow> (case map_of H a of Some (ArrayObject c xs) \<Rightarrow> Some xs | _ \<Rightarrow> None)
      | _ \<Rightarrow> None)"

definition multiReturnElements :: "hostheap \<Rightarrow> jsvalue \<Rightarrow> jsvalue list option" where
  "multiReturnElements H v =
     (case v of
        JObject a \<Rightarrow> (case map_of H a of Some (ArrayObject MultiReturn xs) \<Rightarrow> Some xs | _ \<Rightarrow> None)
      | _ \<Rightarrow> None)"

subsection \<open>References pushed as userdata\<close>

definition createAndPushFunctionReference :: "thread \<Rightarrow> nat \<Rightarrow> state \<Rightarrow> (error + unit) \<times> state" where
  "createAndPushFunctionReference this pointer s =
     (let (userDataPointer, s1) = lua_newuserdatauv (address this) s;
          s2 = module_setValue userDataPointer pointer s1;
          (ty, s3) = luaL_getmetatable (address this) FunctionReference s2
      in if ty = TypeNil then (Inl (MetatableNotFound FunctionReference), pop this 2 s3)
         else (Inr (), lua_setmetatable (address this) (- 2) s3))"

text \<open>The message of the error below names the function-reference metatable, as the source does.\<close>

definition createAndPushJsReference :: "thread \<Rightarrow> jsvalue \<Rightarrow> state \<Rightarrow> (error + unit) \<times> state" where
  "createAndPushJsReference this object s =
     (let (pointer, s1) = ref object s;
          (userDataPointer, s2) = lua_newuserdatauv (address this) s1;
          s3 = module_setValue userDataPointer pointer s2;
          (ty, s4) = luaL_getmetatable (address this) JsReference s3
      in if ty = TypeNil then (Inl (MetatableNotFound FunctionReference), pop this 2 (unref pointer s4))
         else (Inr (), lua_setmetatable (address this) (- 2) s4))"

subsection \<open>The guard map and the options of pushValue\<close>


type_synonym pushDone = "propkey \<rightharpoonup> int"

record pushOptions =
  p_done :: "pushDone option"
  p_reference :: bool
  p_await :: bool
  p_raw :: bool

definition defaultPushOptions :: pushOptions where
  "defaultPushOptions = \<lparr>p_done = None, p_reference = False, p_await = False, p_raw = False\<rparr>"

text \<open>
  \<^verbatim>\<open>options?._done?.[target]\<close>: without a guard map nothing is looked up; with one, the target
  is turned into a property key and the entry must be truthy, that is, not 0.
\<close>

definition doneLookup :: "hostheap \<Rightarrow> pushOptions \<Rightarrow> jsvalue \<Rightarrow> error + int option" where
  "doneLookup H options target =
     (case p_done options of
        None \<Rightarrow> Inr None
      | Some d \<Rightarrow>
          (case toPropertyKey H target of
             None \<Rightarrow> Inl TypeError
           | Some k \<Rightarrow>
               (case d k of
                  None \<Rightarrow> Inr None
                | Some slot \<Rightarrow> if slot \<noteq> 0 then Inr (Some slot) else Inr None)))"



subsection \<open>Outcomes\<close>

text \<open>
  What a call leaves behind: the state together with the error it threw (\<open>Inl\<close>) or the value it
  returned (\<open>Inr\<close>); \<open>None\<close> for a call that does not return. \<open>andThen\<close> runs the next step
  after a normal return and passes an error on.
\<close>

type_synonym 'a outcome = "((error + 'a) \<times> state) option"

definition andThen :: "'a outcome \<Rightarrow> ('a \<Rightarrow> state \<Rightarrow> 'b outcome) \<Rightarrow> 'b outcome" where
  "andThen r f = (case r of None \<Rightarrow> None | Some (Inl e, s) \<Rightarrow> Some (Inl e, s) | Some (Inr x, s) \<Rightarrow> f x s)"

subsection \<open>pushValue\<close>

text \<open>The branches of \<^verbatim>\<open>pushValue\<close> that do not recurse, one definition each.\<close>

definition pushNumber :: "thread \<Rightarrow> jsvalue \<Rightarrow> state \<Rightarrow> state" where
  "pushNumber this target s =
     (case target of
        JNumber (Integer i) \<Rightarrow> lua_pushinteger (address this) i s
      | JNumber (NonInteger t) \<Rightarrow> lua_pushnumber (address this) (NonInteger t) s
      | _ \<Rightarrow> s)"

definition pushString :: "thread \<Rightarrow> jsvalue \<Rightarrow> state \<Rightarrow> state" where
  "pushString this target s = (case target of JString t \<Rightarrow> lua_pushstring (address this) t s | _ \<Rightarrow> s)"

definition pushBoolean :: "thread \<Rightarrow> jsvalue \<Rightarrow> state \<Rightarrow> state" where
  "pushBoolean this target s = (case target of JBoolean b \<Rightarrow> lua_pushboolean (address this) b s | _ \<Rightarrow> s)"

definition pushThread :: "jsvalue \<Rightarrow> state \<Rightarrow> state" where
  "pushThread target s = (case target of JThread t \<Rightarrow> lua_pushthread (address t) s | _ \<Rightarrow> s)"

definition isThread :: "jsvalue \<Rightarrow> bool" where
  "isThread target = (case target of JThread t \<Rightarrow> True | _ \<Rightarrow> False)"

definition pushPromise :: "thread \<Rightarrow> jsvalue \<Rightarrow> state \<Rightarrow> (error + unit) \<times> state" where
  "pushPromise this target s =
     (let (pointer, s1) = ref target s;
          (userDataPointer, s2) = lua_newuserdatauv (address this) s1;
          s3 = module_setValue userDataPointer pointer s2;
          (ty, s4) = luaL_getmetatable (address this) Promise s3
      in if ty = TypeNil then (Inl (MetatableNotFound Promise), pop this 2 (unref pointer s4))
         else (Inr (), lua_setmetatable (address this) (- 2) s4))"

definition pushFunction :: "thread \<Rightarrow> jsvalue \<Rightarrow> jsvalue option \<Rightarrow> pushOptions \<Rightarrow> state \<Rightarrow> (error + unit) \<times> state" where
  "pushFunction this target decorations options s =
     (let (pointer, s1) = addFunction (PushedFunction this target (p_raw options) (p_await options) decorations) s
      in case createAndPushFunctionReference this pointer s1 of
           (Inl e, s2) \<Rightarrow> (Inl e, s2)
         | (Inr u, s2) \<Rightarrow> (Inr (), lua_pushcclosure (address this) pointer 1 s2))"

text \<open>A branch that returns normally leaves \<^verbatim>\<open>options._done\<close> as it found it.\<close>

definition keep :: "pushOptions \<Rightarrow> (error + unit) \<times> state \<Rightarrow> (pushDone option) outcome" where
  "keep options r = (case r of (Inl e, s) \<Rightarrow> Some (Inl e, s) | (Inr u, s) \<Rightarrow> Some (Inr (p_done options), s))"

text \<open>
  \<^verbatim>\<open>pushValue\<close> recurses through the host object graph, so the model takes fuel: \<open>None\<close> means
  that the fuel did not suffice. The result carries the guard map \<^verbatim>\<open>options._done\<close> as the call
  leaves it, because callee and caller share that object. The loops over the elements of an
  array and over the properties of an object are \<open>pushArray\<close> and \<open>pushObject\<close>.
\<close>

function (sequential) pushValue ::
    "nat \<Rightarrow> thread \<Rightarrow> jsvalue \<Rightarrow> pushOptions \<Rightarrow> state \<Rightarrow> (pushDone option) outcome"
  and pushArray ::
    "nat \<Rightarrow> thread \<Rightarrow> int \<Rightarrow> pushDone \<Rightarrow> int \<Rightarrow> jsvalue list \<Rightarrow> state \<Rightarrow> pushDone outcome"
  and pushObject ::
    "nat \<Rightarrow> thread \<Rightarrow> int \<Rightarrow> pushDone \<Rightarrow> (string \<times> jsvalue) list \<Rightarrow> state \<Rightarrow> pushDone outcome"
where
  "pushValue 0 this v options s = None"
| "pushValue (Suc n) this v options s =
     (let target = fst (getValueDecorations (heap s) v);
          decorations = snd (getValueDecorations (heap s) v);
          type = typeof (heap s) target
      in case doneLookup (heap s) options target of
           Inl e \<Rightarrow> Some (Inl e, s)
         | Inr (Some slot) \<Rightarrow> Some (Inr (p_done options), lua_pushvalue (address this) slot s)
         | Inr None \<Rightarrow>
             if p_reference options then keep options (createAndPushJsReference this v s)
             else if type = TUndefined \<or> target = JNull then
               Some (Inr (p_done options), lua_pushnil (address this) s)
             else if type = TNumber then Some (Inr (p_done options), pushNumber this target s)
             else if type = TString then Some (Inr (p_done options), pushString this target s)
             else if type = TBoolean then Some (Inr (p_done options), pushBoolean this target s)
             else if type = TObject then
               (if isThread target then Some (Inr (p_done options), pushThread target s)
                else if promiseOf (heap s) target \<noteq> None then keep options (pushPromise this target s)
                else
                  (case toPropertyKey (heap s) target of
                     None \<Rightarrow> Some (Inl TypeError, s)
                   | Some key \<Rightarrow>
                       (let table = getTop this s + 1;
                            done = (case p_done options of None \<Rightarrow> Map.empty | Some d \<Rightarrow> d)(key \<mapsto> table);
                            s1 = lua_createtable (address this) s
                        in andThen
                             (case arrayElements (heap s) target of
                                Some xs \<Rightarrow> pushArray n this table done 0 xs s1
                              | None \<Rightarrow> pushObject n this table done (enumerate_props (heap s) target) s1)
                             (\<lambda>done' s2.
                                case decorationProperty (heap s2) decorations ''metatable'' of
                                  Inl e \<Rightarrow> Some (Inl e, s2)
                                | Inr mt \<Rightarrow>
                                    if typeof (heap s2) mt = TObject then
                                      andThen (pushValue n this mt defaultPushOptions s2)
                                        (\<lambda>d s3. Some (Inr (Some done'), lua_setmetatable (address this) (- 2) s3))
                                    else Some (Inr (Some done'), s2)))))
             else if type = TFunction then keep options (pushFunction this target decorations options s)
             else Some (Inl (UnsupportedType type), s))"
| "pushArray n this table done i [] s = Some (Inr done, s)"
| "pushArray n this table done i (x # xs) s =
     andThen (pushValue n this (JNumber (Integer (i + 1))) defaultPushOptions s)
       (\<lambda>d s1. andThen (pushValue n this x (defaultPushOptions\<lparr>p_done := Some done\<rparr>) s1)
          (\<lambda>d' s2. case lua_settable (address this) table s2 of
                      Inl e \<Rightarrow> Some (Inl e, s2)
                    | Inr s3 \<Rightarrow> pushArray n this table (case d' of None \<Rightarrow> done | Some dn \<Rightarrow> dn) (i + 1) xs s3))"
| "pushObject n this table done [] s = Some (Inr done, s)"
| "pushObject n this table done ((key, x) # ps) s =
     andThen (pushValue n this (JString key) defaultPushOptions s)
       (\<lambda>d s1. andThen (pushValue n this x (defaultPushOptions\<lparr>p_done := Some done\<rparr>) s1)
          (\<lambda>d' s2. case lua_settable (address this) table s2 of
                      Inl e \<Rightarrow> Some (Inl e, s2)
                    | Inr s3 \<Rightarrow> pushObject n this table (case d' of None \<Rightarrow> done | Some dn \<Rightarrow> dn) ps s3))"
  by pat_completeness auto
termination
  by (relation "inv_image (less_than <*lex*> less_than)
        (\<lambda>x. case x of
                Inl (n, this, v, options, s) \<Rightarrow> (n, 0)
              | Inr (Inl (n, this, table, done, i, xs, s)) \<Rightarrow> (n, Suc (length xs))
              | Inr (Inr (n, this, table, done, ps, s)) \<Rightarrow> (n, Suc (length ps)))")
     auto


subsection \<open>getValue\<close>

type_synonym getDone = "nat \<rightharpoonup> jsvalue"

record getOptions =
  g_raw :: bool
  g_sync :: bool
  g_done :: "getDone option"

definition defaultGetOptions :: getOptions where
  "defaultGetOptions = \<lparr>g_raw = False, g_sync = False, g_done = None\<rparr>"

definition newPointer :: "nat \<Rightarrow> state \<Rightarrow> jsvalue \<times> state" where
  "newPointer p s = (let (a, s1) = newHostObject (PointerObject p) s in (JObject a, s1))"

text \<open>\<^verbatim>\<open>type = type || lua_type(address, idx)\<close>: a missing type and \<^verbatim>\<open>LuaType.Nil\<close> are both falsy.\<close>

definition resolveType :: "state \<Rightarrow> LuaState \<Rightarrow> int \<Rightarrow> LuaType option \<Rightarrow> LuaType" where
  "resolveType s L idx type =
     (case type of
        None \<Rightarrow> lua_type s L idx
      | Some t \<Rightarrow> if t = TypeNil then lua_type s L idx else t)"

definition getFunction :: "thread \<Rightarrow> int \<Rightarrow> state \<Rightarrow> jsvalue \<times> state" where
  "getFunction this idx s =
     (let s1 = lua_pushvalue (address this) idx s;
          (func, s2) = luaL_ref (address this) s1;
          (jsFunc, s3) = newHostObject (JsFuncObject this (nat func)) s2
      in (JObject jsFunc, s3))"

definition getUserData :: "thread \<Rightarrow> int \<Rightarrow> state \<Rightarrow> jsvalue option" where
  "getUserData this idx s =
     (case luaL_testudata s (address this) idx JsReference of
        Some jsRefUserData \<Rightarrow> Some (getRef s (module_getValue s jsRefUserData))
      | None \<Rightarrow>
          (case luaL_testudata s (address this) idx Promise of
             Some promiseUserData \<Rightarrow> Some (getRef s (module_getValue s promiseUserData))
           | None \<Rightarrow> None))"

definition getDefault :: "thread \<Rightarrow> int \<Rightarrow> state \<Rightarrow> jsvalue \<times> state" where
  "getDefault this idx s =
     (let s1 = luaL_tolstring (address this) idx s;
          s2 = pop this 1 s1
      in newPointer (lua_topointer s2 (address this) idx) s2)"

text \<open>
  \<^verbatim>\<open>table[key] = value\<close> on the plain object that \<^verbatim>\<open>getTableValue\<close> builds. A property keeps
  its place when it is assigned again; a new one goes to the end.
\<close>

definition setProperty :: "addr \<Rightarrow> jsvalue \<Rightarrow> jsvalue \<Rightarrow> state \<Rightarrow> error + state" where
  "setProperty a key v s =
     (case toPropertyKey (heap s) key of
        None \<Rightarrow> Inl TypeError
      | Some (KSymbol x) \<Rightarrow> Inr s
      | Some (KString k) \<Rightarrow>
          (case map_of (heap s) a of
             Some (PlainObject ps) \<Rightarrow>
               Inr (s\<lparr>heap := AList.update a (PlainObject (AList.update k v ps)) (heap s)\<rparr>)
           | _ \<Rightarrow> Inr s))"

definition withDone :: "getOptions \<Rightarrow> (jsvalue \<times> state) \<Rightarrow> (jsvalue \<times> getDone option) outcome" where
  "withDone options r = Some (Inr (fst r, g_done options), snd r)"

text \<open>
  \<^verbatim>\<open>getValue\<close> and \<^verbatim>\<open>getTableValue\<close> recurse through the guest tables, so they take fuel as
  \<^verbatim>\<open>pushValue\<close> does, and hand back the guard map they share with their caller.
\<close>

function (sequential) getValue ::
    "nat \<Rightarrow> thread \<Rightarrow> int \<Rightarrow> LuaType option \<Rightarrow> getOptions \<Rightarrow> state \<Rightarrow> (jsvalue \<times> getDone option) outcome"
  and getTableValue ::
    "nat \<Rightarrow> thread \<Rightarrow> int \<Rightarrow> getDone option \<Rightarrow> state \<Rightarrow> (jsvalue \<times> getDone) outcome"
  and getTableLoop ::
    "nat \<Rightarrow> thread \<Rightarrow> int \<Rightarrow> addr \<Rightarrow> getDone \<Rightarrow> state \<Rightarrow> (jsvalue \<times> getDone) outcome"
where
  "getValue 0 this idx type options s = None"
| "getValue (Suc n) this idx type options s =
     (if idx = 0 then Some (Inl IndexZero, s)
      else
        case resolveType s (address this) idx type of
          TypeNone \<Rightarrow> withDone options (JUndefined, s)
        | TypeNil \<Rightarrow> withDone options (JNull, s)
        | TypeNumber \<Rightarrow> withDone options (JNumber (lua_tonumberx s (address this) idx), s)
        | TypeString \<Rightarrow> withDone options (JString (lua_tolstring s (address this) idx), s)
        | TypeBoolean \<Rightarrow> withDone options (JBoolean (lua_toboolean s (address this) idx), s)
        | TypeTable \<Rightarrow>
            if g_raw options then withDone options (newPointer (lua_topointer s (address this) idx) s)
            else andThen (getTableValue n this idx (g_done options) s)
                   (\<lambda>r s1. Some (Inr (fst r, case g_done options of None \<Rightarrow> None | Some d \<Rightarrow> Some (snd r)), s1))
        | TypeFunction \<Rightarrow>
            if g_raw options then withDone options (newPointer (lua_topointer s (address this) idx) s)
            else withDone options (getFunction this idx s)
        | TypeThread \<Rightarrow>
            if g_raw options then withDone options (newPointer (lua_tothread s (address this) idx) s)
            else (let (t, s1) = stateToThread this (lua_tothread s (address this) idx) s
                  in withDone options (JThread t, s1))
        | TypeUserData \<Rightarrow>
            (case getUserData this idx s of
               Some v \<Rightarrow> withDone options (v, s)
             | None \<Rightarrow> withDone options (getDefault this idx s))
        | TypeLightUserData \<Rightarrow> withDone options (getDefault this idx s))"
| "getTableValue 0 this idx done s = None"
| "getTableValue (Suc n) this idx done s =
     (let (table, s1) = newHostObject (PlainObject []) s;
          pointer = lua_topointer s1 (address this) idx;
          d = (case done of None \<Rightarrow> Map.empty | Some d \<Rightarrow> d)
      in case d pointer of
           Some v \<Rightarrow> Some (Inr (v, d), s1)
         | None \<Rightarrow>
             getTableLoop n this (if idx < 0 then idx - 1 else idx) table (d(pointer \<mapsto> JObject table))
               (lua_pushnil (address this) s1))"
| "getTableLoop 0 this idx table done s = None"
| "getTableLoop (Suc n) this idx table done s =
     (case lua_next (address this) idx s of
        Inl e \<Rightarrow> Some (Inl e, s)
      | Inr (False, s1) \<Rightarrow> Some (Inr (JObject table, done), s1)
      | Inr (True, s1) \<Rightarrow>
          andThen (getValue n this (- 2) (Some (lua_type s1 (address this) (- 2)))
                     \<lparr>g_raw = False, g_sync = False, g_done = Some done\<rparr> s1)
            (\<lambda>k s2.
               andThen (getValue n this (- 1) (Some (lua_type s2 (address this) (- 1)))
                          \<lparr>g_raw = False, g_sync = False, g_done = snd k\<rparr> s2)
                 (\<lambda>v s3.
                    case setProperty table (fst k) (fst v) s3 of
                      Inl e \<Rightarrow> Some (Inl e, s3)
                    | Inr s4 \<Rightarrow>
                        getTableLoop n this idx table (case snd v of None \<Rightarrow> done | Some d \<Rightarrow> d)
                          (pop this 1 s4))))"
  by pat_completeness auto
termination
  by (relation "measure
        (\<lambda>x. case x of
                Inl (n, this, idx, type, options, s) \<Rightarrow> n
              | Inr (Inl (n, this, idx, done, s)) \<Rightarrow> n
              | Inr (Inr (n, this, idx, table, done, s)) \<Rightarrow> n)")
     auto


subsection \<open>dumpStack\<close>

text \<open>
  \<^verbatim>\<open>dumpStack\<close> reads every slot in raw mode and logs it; the log itself is not modelled, the
  reads are.
\<close>

primrec dumpSlots :: "int list \<Rightarrow> nat \<Rightarrow> thread \<Rightarrow> state \<Rightarrow> unit outcome" where
  "dumpSlots [] n this s = Some (Inr (), s)"
| "dumpSlots (i # rest) n this s =
     andThen (getValue n this i (Some (lua_type s (address this) i))
                \<lparr>g_raw = True, g_sync = False, g_done = None\<rparr> s)
       (\<lambda>v s1. dumpSlots rest n this s1)"

definition dumpStack :: "nat \<Rightarrow> thread \<Rightarrow> state \<Rightarrow> unit outcome" where
  "dumpStack n this s = dumpSlots (map int [1..<Suc (nat (getTop this s))]) n this s"

subsection \<open>Running guest code\<close>

text \<open>
  What the VM does when it runs guest code is outside the bridge. \<open>vm_resume\<close> stands for
  \<^verbatim>\<open>lua_resume\<close>, \<open>vm_resetthread\<close> for \<^verbatim>\<open>lua_resetthread\<close>, and \<open>host_call\<close> for the call
  \<^verbatim>\<open>target(...args)\<close> of a host function. \<open>resumes\<close> counts the calls of \<^verbatim>\<open>lua_resume\<close>.
\<close>

record machine =
  vm_resume :: "LuaState \<Rightarrow> int \<Rightarrow> state \<Rightarrow> LuaResumeResult \<times> state"
  vm_resetthread :: "LuaState \<Rightarrow> state \<Rightarrow> LuaReturn \<times> state"
  host_call :: "jsvalue \<Rightarrow> jsvalue list \<Rightarrow> state \<Rightarrow> (error + jsvalue) \<times> state"

definition lua_resume :: "machine \<Rightarrow> LuaState \<Rightarrow> int \<Rightarrow> state \<Rightarrow> LuaResumeResult \<times> state" where
  "lua_resume m L argCount s =
     (let (r, s1) = vm_resume m L argCount s in (r, s1\<lparr>resumes := Suc (resumes s)\<rparr>))"

definition assertOk :: "thread \<Rightarrow> LuaReturn \<Rightarrow> state \<Rightarrow> (error + unit) \<times> state" where
  "assertOk this r s =
     (if r \<noteq> Ok \<and> r \<noteq> Yield then
        (if getTop this s > 0
         then (Inl (LuaError r (Some (lua_tolstring s (address this) (- 1)))), pop this 1 s)
         else (Inl (LuaError r None), s))
      else (Inr (), s))"

definition resume :: "machine \<Rightarrow> thread \<Rightarrow> int \<Rightarrow> state \<Rightarrow> (error + LuaResumeResult) \<times> state" where
  "resume m this argCount s =
     (let (resumeResult, s1) = lua_resume m (address this) argCount s
      in case assertOk this (result resumeResult) s1 of
           (Inl e, s2) \<Rightarrow> (Inl e, s2)
         | (Inr u, s2) \<Rightarrow> (Inr resumeResult, s2))"


text \<open>
  \<^verbatim>\<open>await p\<close> in terms of what \<open>p\<close> settles with. Awaiting the promise that \<^verbatim>\<open>pushValue\<close>
  derives with \<^verbatim>\<open>then\<close> runs its reaction first, which stores the value in \<^verbatim>\<open>results\<close>; a
  rejection passes through it unhandled.
\<close>

fun await :: "promise \<Rightarrow> state \<Rightarrow> fate \<times> state" where
  "await (Settles f) s = (f, s)"
| "await (Then p c) s =
     (case await p s of
        (Fulfils x, s1) \<Rightarrow> (Fulfils JUndefined, s1\<lparr>results := (results s1)(c \<mapsto> x)\<rparr>)
      | (Rejects e, s1) \<Rightarrow> (Rejects e, s1)
      | (NeverSettles, s1) \<Rightarrow> (NeverSettles, s1))"

text \<open>
  The body of the loop of \<^verbatim>\<open>run\<close> between two resumptions. A promise that never settles
  keeps \<^verbatim>\<open>run\<close> from returning.
\<close>

definition awaitYielded :: "nat \<Rightarrow> thread \<Rightarrow> LuaResumeResult \<Rightarrow> state \<Rightarrow> unit outcome" where
  "awaitYielded n this resumeResult s =
     (if resultCount resumeResult > 0 then
        andThen (getValue n this (- 1) None defaultGetOptions s)
          (\<lambda>lastValue s1.
             let s2 = pop this (resultCount resumeResult) s1
             in (case promiseOf (heap s2) (fst lastValue) of
                   Some p \<Rightarrow>
                     (case await p s2 of
                        (Fulfils x, s3) \<Rightarrow> Some (Inr (), s3)
                      | (Rejects e, s3) \<Rightarrow> Some (Inl (Rejection e), s3)
                      | (NeverSettles, s3) \<Rightarrow> None)
                 | None \<Rightarrow> dumpStack n this s2))
      else Some (Inr (), s))"

primrec runLoop :: "nat \<Rightarrow> machine \<Rightarrow> thread \<Rightarrow> LuaResumeResult \<Rightarrow> state \<Rightarrow> LuaResumeResult outcome" where
  "runLoop 0 m this resumeResult s = None"
| "runLoop (Suc n) m this resumeResult s =
     (if result resumeResult = Yield then
        andThen (dumpStack n this s)
          (\<lambda>u s1. andThen (awaitYielded n this resumeResult s1)
             (\<lambda>u s2. case resume m this 0 s2 of
                        (Inl e, s3) \<Rightarrow> Some (Inl e, s3)
                      | (Inr r, s3) \<Rightarrow> runLoop n m this r s3))
      else andThen (dumpStack n this s) (\<lambda>u s1. Some (Inr resumeResult, s1)))"

definition run :: "nat \<Rightarrow> machine \<Rightarrow> thread \<Rightarrow> int \<Rightarrow> state \<Rightarrow> LuaResumeResult outcome" where
  "run n m this argCount s =
     (case resume m this argCount s of
        (Inl e, s1) \<Rightarrow> Some (Inl e, s1)
      | (Inr r, s1) \<Rightarrow> runLoop n m this r s1)"

text \<open>A \<^verbatim>\<open>MultiReturn\<close> is returned as the list of its elements.\<close>

primrec getSlots :: "int list \<Rightarrow> nat \<Rightarrow> thread \<Rightarrow> state \<Rightarrow> (jsvalue list) outcome" where
  "getSlots [] n this s = Some (Inr [], s)"
| "getSlots (i # rest) n this s =
     andThen (getValue n this i None defaultGetOptions s)
       (\<lambda>v s1. andThen (getSlots rest n this s1) (\<lambda>vs s2. Some (Inr (fst v # vs), s2)))"

definition getValues :: "nat \<Rightarrow> thread \<Rightarrow> int \<Rightarrow> state \<Rightarrow> (jsvalue list) outcome" where
  "getValues n this count s =
     getSlots (map (\<lambda>i. getTop this s - count + int i + 1) [0..<nat count]) n this s"

primrec pushAll :: "jsvalue list \<Rightarrow> nat \<Rightarrow> thread \<Rightarrow> state \<Rightarrow> unit outcome" where
  "pushAll [] n this s = Some (Inr (), s)"
| "pushAll (x # xs) n this s =
     andThen (pushValue n this x defaultPushOptions s) (\<lambda>d s1. pushAll xs n this s1)"

subsection \<open>The wrapper of a guest function\<close>

text \<open>
  \<open>jsFunc n m this func args\<close> is a call of the wrapper that \<^verbatim>\<open>getValue\<close> returned on thread
  \<open>this\<close> for registry slot \<open>func\<close>. \<open>tryFinally\<close> is the \<^verbatim>\<open>finally\<close> block.
\<close>

definition tryFinally :: "'a outcome \<Rightarrow> (state \<Rightarrow> unit outcome) \<Rightarrow> 'a outcome" where
  "tryFinally r f =
     (case r of
        None \<Rightarrow> None
      | Some (x, s) \<Rightarrow>
          (case f s of
             None \<Rightarrow> None
           | Some (Inl e, s1) \<Rightarrow> Some (Inl e, s1)
           | Some (Inr u, s1) \<Rightarrow> Some (x, s1)))"

definition jsFunc :: "nat \<Rightarrow> machine \<Rightarrow> thread \<Rightarrow> nat \<Rightarrow> jsvalue list \<Rightarrow> state \<Rightarrow> (jsvalue list) outcome" where
  "jsFunc n m this func args s =
     (if isClosed s this then Some (Inr [], s)
      else
        let (thread, s1) = newThread this s;
            threadIndex = getTop this s1
        in tryFinally
             (let (internalType, s2) = lua_rawgeti (address thread) (int func) s1
              in if internalType \<noteq> TypeFunction then Some (Inl NotAFunction, s2)
                 else andThen (pushAll args n thread s2)
                        (\<lambda>u s3. andThen (dumpStack n thread s3)
                           (\<lambda>u s4. andThen (run n m thread (int (length args)) s4)
                              (\<lambda>resumeResult s5. getValues n thread (resultCount resumeResult) s5))))
             (\<lambda>s6. andThen (dumpStack n this s6) (\<lambda>u s7. Some (Inr (), remove this threadIndex s7))))"

subsection \<open>The callback of a pushed host function\<close>

text \<open>What a callback hands to the VM: a number of results, or the yield of \<^verbatim>\<open>lua_yieldk\<close>.\<close>

datatype callback_return = Returns jsnumber | Yields LuaState int nat nat

text \<open>
  \<^verbatim>\<open>decorations?.rawArguments?.includes(i - 1)\<close>, for a \<^verbatim>\<open>rawArguments\<close> that is an array or
  missing.
\<close>

definition rawArgument :: "hostheap \<Rightarrow> jsvalue option \<Rightarrow> int \<Rightarrow> error + bool" where
  "rawArgument H decorations i =
     (case decorations of
        None \<Rightarrow> Inr False
      | Some d \<Rightarrow>
          if d = JUndefined \<or> d = JNull then Inr False
          else
            (case getProperty H d ''rawArguments'' of
               Inl e \<Rightarrow> Inl e
             | Inr ra \<Rightarrow>
                 if ra = JUndefined \<or> ra = JNull then Inr False
                 else
                   (case arrayElements H ra of
                      Some xs \<Rightarrow> Inr (JNumber (Integer (i - 1)) \<in> set xs)
                    | None \<Rightarrow> Inl TypeError)))"

primrec collectArgs :: "int list \<Rightarrow> nat \<Rightarrow> thread \<Rightarrow> jsvalue option \<Rightarrow> state \<Rightarrow> (jsvalue list) outcome" where
  "collectArgs [] n thread decorations s = Some (Inr [], s)"
| "collectArgs (i # rest) n thread decorations s =
     (case rawArgument (heap s) decorations i of
        Inl e \<Rightarrow> Some (Inl e, s)
      | Inr r \<Rightarrow>
          andThen (getValue n thread i None \<lparr>g_raw = r, g_sync = False, g_done = None\<rparr> s)
            (\<lambda>v s1. andThen (collectArgs rest n thread decorations s1)
               (\<lambda>vs s2. Some (Inr (fst v # vs), s2))))"

text \<open>
  The tail shared by the callback and by its continuation: what a settled or synchronous
  result becomes on the guest stack. \<open>notNumber\<close> is the error of a raw function.
\<close>

definition returnResults :: "nat \<Rightarrow> thread \<Rightarrow> bool \<Rightarrow> error \<Rightarrow> jsvalue \<Rightarrow> state \<Rightarrow> callback_return outcome" where
  "returnResults n thread rw notNumber r s =
     (if rw then (case r of JNumber x \<Rightarrow> Some (Inr (Returns x), s) | _ \<Rightarrow> Some (Inl notNumber, s))
      else if r = JUndefined then Some (Inr (Returns (Integer 0)), s)
      else
        (case multiReturnElements (heap s) r of
           Some items \<Rightarrow>
             andThen (pushAll items n thread s) (\<lambda>u s1. Some (Inr (Returns (Integer (int (length items)))), s1))
         | None \<Rightarrow>
             andThen (pushValue n thread r defaultPushOptions s) (\<lambda>d s1. Some (Inr (Returns (Integer 1)), s1))))"

text \<open>
  The installation of a continuation: \<open>releasePrior\<close> removes the handle left by an earlier
  call, then the new closure is registered and stored in \<^verbatim>\<open>this.continuance\<close>.
\<close>

definition releasePrior :: "thread \<Rightarrow> state \<Rightarrow> state" where
  "releasePrior this s = (case continuance s (ident this) of Some c \<Rightarrow> removeFunction c s | None \<Rightarrow> s)"

definition installContinuance :: "thread \<Rightarrow> LuaState \<Rightarrow> bool \<Rightarrow> nat \<Rightarrow> state \<Rightarrow> nat \<times> state" where
  "installContinuance this calledL rw cell s =
     (let s1 = releasePrior this s;
          (k, s2) = addFunction (ContinuanceFn this calledL rw cell) s1
      in (k, s2\<lparr>continuance := (continuance s2)(ident this \<mapsto> k)\<rparr>))"

definition newResults :: "state \<Rightarrow> nat \<times> state" where
  "newResults s = (nextResults s, s\<lparr>results := (results s)(nextResults s := None), nextResults := Suc (nextResults s)\<rparr>)"

definition pushedFunction ::
  "nat \<Rightarrow> machine \<Rightarrow> thread \<Rightarrow> jsvalue \<Rightarrow> bool \<Rightarrow> bool \<Rightarrow> jsvalue option \<Rightarrow> LuaState \<Rightarrow> state \<Rightarrow> callback_return outcome" where
  "pushedFunction n m this target rw aw decorations calledL s =
     (let argsQuantity = lua_gettop s calledL;
          (thread, s1) = stateToThread this calledL s
      in andThen (collectArgs (map int [1..<Suc (nat argsQuantity)]) n thread decorations s1)
           (\<lambda>args s2.
              case host_call m target ((if rw then [JThread thread] else []) @ args) s2 of
                (Inl e, s3) \<Rightarrow> Some (Inl e, s3)
              | (Inr r, s3) \<Rightarrow>
                  (case promiseOf (heap s3) r of
                     None \<Rightarrow> returnResults n thread rw RawNotNumber r s3
                   | Some p \<Rightarrow>
                       if \<not> aw then returnResults n thread rw RawNotNumber r s3
                       else
                         let (cell, s4) = newResults s3;
                             (k, s5) = installContinuance this calledL rw cell s4;
                             (promise, s6) = newHostObject (PromiseObject (Then p cell)) s5
                         in (case createAndPushJsReference thread (JObject promise) s6 of
                               (Inl e, s7) \<Rightarrow> Some (Inl e, s7)
                             | (Inr u, s7) \<Rightarrow> Some (Inr (Yields calledL 1 k k), s7)))))"



section \<open>The root context (global.ts)\<close>

record global =
  g_thread :: thread
  functionGcPointer :: nat
  jsRefGcPointer :: nat
  promiseGcPointer :: nat
  allocatorFunctionPointer :: nat

definition close :: "global \<Rightarrow> state \<Rightarrow> (error + unit) \<times> state" where
  "close g s =
     (if closed s (ident (g_thread g)) then (Inr (), s)
      else
        let s1 = s\<lparr>closed := (closed s)(ident (g_thread g) := True)\<rparr>;
            s2 = lua_close s1;
            s3 = removeFunction (functionGcPointer g) s2;
            s4 = removeFunction (jsRefGcPointer g) s3;
            s5 = removeFunction (promiseGcPointer g) s4;
            s6 = removeFunction (allocatorFunctionPointer g) s5
        in (Inr (), s6))"

section \<open>Notions used by the properties\<close>

subsection \<open>A root context after its construction\<close>

text \<open>
  The root context of the examples: its state has address 1, the three metatables of the
  constructor are registered, and the allocator and the three finalizers occupy slots 10 to 13
  of the function table.
\<close>

definition ex_root :: thread where
  "ex_root = Thread 0 1 None True"

definition ex_global :: global where
  "ex_global = \<lparr>g_thread = ex_root, functionGcPointer = 11, jsRefGcPointer = 12,
                 promiseGcPointer = 13, allocatorFunctionPointer = 10\<rparr>"

definition ex_state :: state where
  "ex_state =
     \<lparr>stacks = [1 \<mapsto> []],
      objects = [1 \<mapsto> TableObj [] None, 2 \<mapsto> TableObj [] None, 3 \<mapsto> TableObj [] None],
      nextObject = 4,
      metatables = [FunctionReference \<mapsto> 1, JsReference \<mapsto> 2, Promise \<mapsto> 3],
      registry = Map.empty, nextRef = 1, nextState = 2, luaClosed = False, resumes = 0,
      functionTable = [10 \<mapsto> AllocatorFn, 11 \<mapsto> FunctionGcFn, 12 \<mapsto> JsRefGcFn, 13 \<mapsto> PromiseGcFn],
      freeTableIndexes = [], tableLength = 14,
      references = Map.empty, nextReference = 1,
      heap = [], nextAddr = 1,
      closed = (\<lambda>i. False), continuance = Map.empty, nextIdent = 1,
      results = Map.empty, nextResults = 0\<rparr>"

text \<open>The same state with the host objects \<open>H\<close> on the heap.\<close>

definition ex_with :: "hostheap \<Rightarrow> state" where
  "ex_with H = ex_state\<lparr>heap := H, nextAddr := Suc (length H)\<rparr>"

subsection \<open>Closing several times\<close>

primrec closeTimes :: "nat \<Rightarrow> global \<Rightarrow> state \<Rightarrow> (error + unit) \<times> state" where
  "closeTimes 0 g s = (Inr (), s)"
| "closeTimes (Suc k) g s =
     (case close g s of (Inl e, s1) \<Rightarrow> (Inl e, s1) | (Inr u, s1) \<Rightarrow> closeTimes k g s1)"

subsection \<open>A round trip through the stack\<close>

text \<open>\<^verbatim>\<open>pushValue(v)\<close> followed by \<^verbatim>\<open>getValue(-1)\<close>, both with default options.\<close>

definition roundTrip :: "nat \<Rightarrow> thread \<Rightarrow> jsvalue \<Rightarrow> state \<Rightarrow> (error + jsvalue) option" where
  "roundTrip n this v s =
     (case pushValue n this v defaultPushOptions s of
        None \<Rightarrow> None
      | Some (Inl e, s1) \<Rightarrow> Some (Inl e)
      | Some (Inr d, s1) \<Rightarrow>
          (case getValue n this (- 1) None defaultGetOptions s1 of
             None \<Rightarrow> None
           | Some (Inl e, s2) \<Rightarrow> Some (Inl e)
           | Some (Inr r, s2) \<Rightarrow> Some (Inr (fst r))))"

text \<open>
  The primitive host values that the VM represents without loss: \<^verbatim>\<open>null\<close>, the booleans, the
  strings without a NUL character, the integral numbers of the guest's 64-bit range and the
  numbers that are not integral.
\<close>

fun representable :: "jsvalue \<Rightarrow> bool" where
  "representable JNull = True"
| "representable (JBoolean b) = True"
| "representable (JString t) = (CHR 0x00 \<notin> set t)"
| "representable (JNumber (Integer i)) = (- (2 ^ 63) \<le> i \<and> i < 2 ^ 63)"
| "representable (JNumber (NonInteger t)) = True"
| "representable v = False"

text \<open>The types for which \<^verbatim>\<open>pushValue\<close> has a branch.\<close>

definition supported :: "jstype \<Rightarrow> bool" where
  "supported ty = (ty \<in> {TUndefined, TObject, TNumber, TString, TBoolean, TFunction})"

subsection \<open>Outstanding continuations\<close>

text \<open>
  \<open>outstanding s i h\<close>: slot \<open>h\<close> of the function table holds a continuation installed for the
  context with identity \<open>i\<close>.
\<close>

definition outstanding :: "state \<Rightarrow> nat \<Rightarrow> nat \<Rightarrow> bool" where
  "outstanding s i h =
     (case functionTable s h of
        Some (ContinuanceFn t L rw c) \<Rightarrow> ident t = i
      | _ \<Rightarrow> False)"

text \<open>
  The function table is sound when every free slot is empty and listed once, and no slot
  beyond the end of the table is in use.
\<close>

definition soundTable :: "state \<Rightarrow> bool" where
  "soundTable s =
     (distinct (freeTableIndexes s)
      \<and> (\<forall>h \<in> set (freeTableIndexes s). functionTable s h = None \<and> h < tableLength s)
      \<and> (\<forall>h. tableLength s \<le> h \<longrightarrow> functionTable s h = None))"

text \<open>
  The invariant: for every context, the continuation handles in the function table are
  exactly the one stored in its field \<^verbatim>\<open>continuance\<close>, if any.
\<close>

definition oneContinuance :: "state \<Rightarrow> bool" where
  "oneContinuance s = (soundTable s \<and> (\<forall>i h. outstanding s i h \<longleftrightarrow> continuance s i = Some h))"

subsection \<open>A guest call that awaits a host function\<close>

text \<open>
  The host heap of the example: object 1 is a promise that rejects with the string \<open>boom\<close>,
  object 2 a host function, object 3 a promise that fulfils with 7.
\<close>

definition ex_heap :: hostheap where
  "ex_heap =
     [(1, PromiseObject (Settles (Rejects (JString ''boom'')))),
      (2, FunctionObject ''() => p''),
      (3, PromiseObject (Settles (Fulfils (JNumber (Integer 7)))))]"

text \<open>The host function of the example returns the promise it is given as \<open>p\<close>.\<close>

definition ex_host :: "jsvalue \<Rightarrow> machine" where
  "ex_host p =
     \<lparr>vm_resume = (\<lambda>L argCount s. (\<lparr>result = Ok, resultCount = 0\<rparr>, s)),
      vm_resetthread = (\<lambda>L s. (Ok, s)),
      host_call = (\<lambda>f args s. (Inr p, s))\<rparr>"

text \<open>
  A VM whose guest code calls that host function, pushed with \<^verbatim>\<open>await: true\<close>, on the first
  resumption, and finishes without results on the next one.
\<close>

definition ex_machine :: "jsvalue \<Rightarrow> machine" where
  "ex_machine p =
     \<lparr>vm_resume =
        (\<lambda>L argCount s.
           if resumes s = 0 then
             (case pushedFunction 3 (ex_host p) ex_root (JObject 2) False True None L s of
                Some (Inr (Yields L' k c c'), s1) \<Rightarrow> (\<lparr>result = Yield, resultCount = k\<rparr>, s1)
              | Some (Inr (Returns x), s1) \<Rightarrow> (\<lparr>result = Ok, resultCount = 0\<rparr>, s1)
              | Some (Inl e, s1) \<Rightarrow> (\<lparr>result = ErrorRun, resultCount = 0\<rparr>, s1)
              | None \<Rightarrow> (\<lparr>result = ErrorRun, resultCount = 0\<rparr>, s))
           else (\<lparr>result = Ok, resultCount = 0\<rparr>, s)),
      vm_resetthread = (\<lambda>L s. (Ok, s)),
      host_call = (\<lambda>f args s. (Inr p, s))\<rparr>"



subsection \<open>A decorated array in a cycle, and a spawned context\<close>

text \<open>
  The host objects of \<open>ex_cyclic\<close>: object 1 decorates the empty array 2 with the options 3,
  whose metatable 4 has a property \<^verbatim>\<open>self\<close> that is the decoration again. In source form:
  \<^verbatim>\<open>m = {}; d = new Decoration([], { metatable: m }); m.self = d\<close>.
\<close>

definition ex_cyclic :: state where
  "ex_cyclic =
     ex_with [(1, DecorationObject (JObject 2) (JObject 3)),
              (2, ArrayObject PlainArray []),
              (3, PlainObject [(''metatable'', JObject 4)]),
              (4, PlainObject [(''self'', JObject 1)])]"

text \<open>The root context after \<^verbatim>\<open>newThread\<close>, and the context it returned.\<close>

definition ex_child :: thread where
  "ex_child = fst (newThread ex_root ex_state)"

definition ex_spawned :: state where
  "ex_spawned = snd (newThread ex_root ex_state)"

text \<open>
  The invariant of the whole bridge adds that the identities not yet handed out have no
  continuation stored; \<open>hostPreserves m\<close> says that the host functions of \<open>m\<close> respect it.
\<close>

definition bridgeInvariant :: "state \<Rightarrow> bool" where
  "bridgeInvariant s = (oneContinuance s \<and> (\<forall>i. nextIdent s \<le> i \<longrightarrow> continuance s i = None))"


text \<open>The part of the state that the invariant speaks about.\<close>

definition bridgePart ::
  "state \<Rightarrow> (nat \<rightharpoonup> callable) \<times> nat list \<times> nat \<times> (nat \<rightharpoonup> nat) \<times> nat" where
  "bridgePart s = (functionTable s, freeTableIndexes s, tableLength s, continuance s, nextIdent s)"



section \<open>The memory ceiling\<close>

lemma allocator_rejects:
  assumes "memoryMax st = Some M" "M \<noteq> 0"
      and "p \<noteq> 0 \<or> osz < nsz" "\<not> (nsz = 0 \<and> p \<noteq> 0)"
      and "M < memoryUsed st + (if p \<noteq> 0 then nsz - osz else nsz)"
  shows "allocator r st p osz nsz = (Rejected, st)"
  using assms by (auto simp: allocator_def exceedsMax_def Let_def)

lemma allocator_keeps_ceiling:
  assumes "memoryMax st = Some M" "M \<noteq> 0" "memoryUsed st \<le> M" "recognised (r, p, osz, nsz)"
  shows "memoryUsed (snd (allocator r st p osz nsz)) \<le> M \<and> memoryMax (snd (allocator r st p osz nsz)) = Some M"
  using assms by (auto simp: allocator_def exceedsMax_def Let_def)

lemma allocator_never_rejects_shrinking:
  assumes "memoryMax st = Some M" "memoryUsed st \<le> M" "nsz \<le> osz"
  shows "fst (allocator r st p osz nsz) \<noteq> Rejected"
  using assms by (auto simp: allocator_def exceedsMax_def Let_def)

lemma serve_keeps_ceiling:
  "memoryMax st = Some M \<Longrightarrow> M \<noteq> 0 \<Longrightarrow> memoryUsed st \<le> M \<Longrightarrow> \<forall>q \<in> set reqs. recognised q
    \<Longrightarrow> memoryUsed (serve st reqs) \<le> M"
proof (induction reqs arbitrary: st)
  case Nil
  then show ?case by simp
next
  case (Cons q reqs)
  obtain r p osz nsz where q: "q = (r, p, osz, nsz)"
    by (cases q) auto
  have known: "recognised (r, p, osz, nsz)"
    using Cons.prems(4) q by simp
  have "memoryUsed (snd (allocator r st p osz nsz)) \<le> M"
    and "memoryMax (snd (allocator r st p osz nsz)) = Some M"
    using allocator_keeps_ceiling[OF Cons.prems(1) Cons.prems(2) Cons.prems(3) known] by auto
  then show ?case
    using Cons.IH[of "snd (allocator r st p osz nsz)"] Cons.prems(2,4) q by simp
qed

text \<open>
  C2 (as amended). With a ceiling \<open>M\<close> other than 0 and a tracked usage of at most \<open>M\<close>:
  a request on an existing block, or for a new block larger than its stated old size, whose
  end usage would pass \<open>M\<close> is rejected and leaves the counter alone; after any sequence of
  requests of the recognised kinds the counter is still at most \<open>M\<close>; and a request that frees
  or does not grow is never rejected by the ceiling check.
\<close>

theorem allocator_ceiling:
  assumes "memoryMax st = Some M" and "M \<noteq> 0" and "memoryUsed st \<le> M"
  shows "((p \<noteq> 0 \<or> osz < nsz) \<and> \<not> (nsz = 0 \<and> p \<noteq> 0)
            \<and> M < memoryUsed st + (if p \<noteq> 0 then nsz - osz else nsz)
          \<longrightarrow> allocator r st p osz nsz = (Rejected, st))
       \<and> ((\<forall>q \<in> set reqs. recognised q) \<longrightarrow> memoryUsed (serve st reqs) \<le> M)
       \<and> (nsz' \<le> osz' \<longrightarrow> fst (allocator r' st p' osz' nsz') \<noteq> Rejected)"
  using assms allocator_rejects[of st M p osz nsz r] serve_keeps_ceiling[of st M reqs]
    allocator_never_rejects_shrinking[of st M nsz' osz' r' p']
  by blast

theorem allocator_ceiling_witness:
  "allocator 4096 \<lparr>memoryUsed = 90, memoryMax = Some 100\<rparr> 0 4 20
     = (Rejected, \<lparr>memoryUsed = 90, memoryMax = Some 100\<rparr>)
   \<and> memoryUsed (serve \<lparr>memoryUsed = 90, memoryMax = Some 100\<rparr> [(4096, 0, 0, 8), (4096, 7, 8, 50)]) \<le> 100
   \<and> fst (allocator 4096 \<lparr>memoryUsed = 90, memoryMax = Some 100\<rparr> 7 50 10) \<noteq> Rejected"
  using allocator_ceiling[where st = "\<lparr>memoryUsed = 90, memoryMax = Some 100\<rparr>" and M = 100
      and p = 0 and osz = 4 and nsz = 20 and r = 4096
      and reqs = "[(4096, 0, 0, 8), (4096, 7, 8, 50)]"
      and p' = 7 and osz' = 50 and nsz' = 10 and r' = 4096]
  by simp

text \<open>
  C2 as stated fails in three ways: a new block no larger than the number passed as its old
  size is not checked, so the counter passes the ceiling; a ceiling of 0 switches the check
  off; and a shrinking request is rejected when the ceiling was set below the current usage.
\<close>

theorem allocator_ceiling_counterexample:
  "allocator 4096 \<lparr>memoryUsed = 10, memoryMax = Some 10\<rparr> 0 5 4
     = (Reallocated 4096, \<lparr>memoryUsed = 14, memoryMax = Some 10\<rparr>)
   \<and> allocator 4096 (setMemoryMax (Some 0) \<lparr>memoryUsed = 0, memoryMax = None\<rparr>) 0 0 16
     = (Reallocated 4096, \<lparr>memoryUsed = 16, memoryMax = Some 0\<rparr>)
   \<and> allocator 4096 (setMemoryMax (Some 50) \<lparr>memoryUsed = 100, memoryMax = None\<rparr>) 7 30 20
     = (Rejected, \<lparr>memoryUsed = 100, memoryMax = Some 50\<rparr>)"
  by (simp add: allocator_def exceedsMax_def setMemoryMax_def)

section \<open>Closing the root context\<close>

lemma close_closes: "closed (snd (close g s)) (ident (g_thread g))"
  by (simp add: close_def Let_def removeFunction_def lua_close_def)

lemma close_no_error: "fst (close g s) = Inr ()"
  by (simp add: close_def Let_def)

lemma close_again: "closed s (ident (g_thread g)) \<Longrightarrow> close g s = (Inr (), s)"
  by (simp add: close_def)

lemma closeTimes_closed: "closed s (ident (g_thread g)) \<Longrightarrow> closeTimes k g s = (Inr (), s)"
  by (induction k) (simp_all add: close_again)

lemma closeTimes_once: "closeTimes (Suc k) g s = close g s"
proof -
  obtain s1 where c: "close g s = (Inr (), s1)"
    using close_no_error[of g s] by (cases "close g s") auto
  have "closed s1 (ident (g_thread g))"
    using close_closes[of g s] c by simp
  then show ?thesis
    using c by (simp add: closeTimes_closed)
qed

text \<open>
  C5. Any number of calls of \<^verbatim>\<open>close\<close> returns normally and leaves the state that the first
  call left; a call on a closed root changes nothing; and the first call on an open root
  tears the VM down and puts exactly the allocator and the three finalizers on the list of
  free slots, each once.
\<close>

theorem close_idempotent:
  "fst (closeTimes k g s) = Inr ()
   \<and> closeTimes (Suc k) g s = close g s
   \<and> close g (snd (close g s)) = (Inr (), snd (close g s))
   \<and> (\<not> closed s (ident (g_thread g)) \<longrightarrow>
        luaClosed (snd (closeTimes (Suc k) g s))
        \<and> freeTableIndexes (snd (closeTimes (Suc k) g s))
            = [allocatorFunctionPointer g, promiseGcPointer g, jsRefGcPointer g, functionGcPointer g]
              @ freeTableIndexes s
        \<and> functionTable (snd (closeTimes (Suc k) g s)) (allocatorFunctionPointer g) = None
        \<and> functionTable (snd (closeTimes (Suc k) g s)) (promiseGcPointer g) = None
        \<and> functionTable (snd (closeTimes (Suc k) g s)) (jsRefGcPointer g) = None
        \<and> functionTable (snd (closeTimes (Suc k) g s)) (functionGcPointer g) = None)"
proof -
  have a: "fst (closeTimes k g s) = Inr ()"
    by (cases k) (simp_all add: closeTimes_once close_no_error del: closeTimes.simps(2))
  have b: "close g (snd (close g s)) = (Inr (), snd (close g s))"
    by (rule close_again) (rule close_closes)
  have c: "\<not> closed s (ident (g_thread g)) \<Longrightarrow>
        luaClosed (snd (close g s))
        \<and> freeTableIndexes (snd (close g s))
            = [allocatorFunctionPointer g, promiseGcPointer g, jsRefGcPointer g, functionGcPointer g]
              @ freeTableIndexes s
        \<and> functionTable (snd (close g s)) (allocatorFunctionPointer g) = None
        \<and> functionTable (snd (close g s)) (promiseGcPointer g) = None
        \<and> functionTable (snd (close g s)) (jsRefGcPointer g) = None
        \<and> functionTable (snd (close g s)) (functionGcPointer g) = None"
    by (simp add: close_def Let_def removeFunction_def lua_close_def)
  show ?thesis
    using a b c by (simp add: closeTimes_once del: closeTimes.simps(2))
qed

theorem close_idempotent_witness:
  "fst (closeTimes 2 ex_global ex_state) = Inr ()
   \<and> closeTimes (Suc 2) ex_global ex_state = close ex_global ex_state
   \<and> close ex_global (snd (close ex_global ex_state)) = (Inr (), snd (close ex_global ex_state))
   \<and> \<not> closed ex_state (ident (g_thread ex_global))
   \<and> luaClosed (snd (closeTimes (Suc 2) ex_global ex_state))
   \<and> freeTableIndexes (snd (closeTimes (Suc 2) ex_global ex_state)) = [10, 13, 12, 11]
   \<and> functionTable (snd (closeTimes (Suc 2) ex_global ex_state)) 10 = None"
proof -
  have open_root: "\<not> closed ex_state (ident (g_thread ex_global))"
    by (simp add: ex_state_def)
  note inst = close_idempotent[of 2 ex_global ex_state]
  have free: "freeTableIndexes (snd (closeTimes (Suc 2) ex_global ex_state))
      = [allocatorFunctionPointer ex_global, promiseGcPointer ex_global, jsRefGcPointer ex_global,
         functionGcPointer ex_global] @ freeTableIndexes ex_state"
    using inst open_root by blast
  have slot: "functionTable (snd (closeTimes (Suc 2) ex_global ex_state)) (allocatorFunctionPointer ex_global) = None"
    using inst open_root by blast
  have "freeTableIndexes (snd (closeTimes (Suc 2) ex_global ex_state)) = [10, 13, 12, 11]"
    unfolding free by (simp add: ex_global_def ex_state_def)
  moreover have "functionTable (snd (closeTimes (Suc 2) ex_global ex_state)) 10 = None"
    using slot by (simp add: ex_global_def)
  moreover have "luaClosed (snd (closeTimes (Suc 2) ex_global ex_state))"
    using inst open_root by blast
  ultimately show ?thesis
    using inst open_root by blast
qed

section \<open>The wrapper of a guest function on a closed context\<close>

text \<open>
  C7. When the context that owns a wrapper is closed at the time of the call, the wrapper
  returns the empty list and leaves the whole state, the VM's included, as it was.
\<close>

theorem jsFunc_closed:
  "isClosed s this \<Longrightarrow> jsFunc n m this func args s = Some (Inr [], s)"
  by (simp add: jsFunc_def)

theorem jsFunc_closed_witness:
  "isClosed (snd (close ex_global ex_state)) (Thread 5 2 (Some ex_root) False)
   \<and> jsFunc 9 (ex_machine JUndefined) (Thread 5 2 (Some ex_root) False) 1 [JNumber (Integer 1)]
         (snd (close ex_global ex_state))
       = Some (Inr [], snd (close ex_global ex_state))"
proof -
  have "closed (snd (close ex_global ex_state)) (ident ex_root)"
    using close_closes[of ex_global ex_state] by (simp add: ex_global_def)
  then have "isClosed (snd (close ex_global ex_state)) (Thread 5 2 (Some ex_root) False)"
    by (simp add: ex_root_def)
  then show ?thesis
    using jsFunc_closed[of "snd (close ex_global ex_state)" "Thread 5 2 (Some ex_root) False"
        9 "ex_machine JUndefined" 1 "[JNumber (Integer 1)]"]
    by simp
qed



section \<open>Index 0\<close>

lemma andThen_error:
  "andThen r f = Some (Inl e, s') \<Longrightarrow>
     r = Some (Inl e, s') \<or> (\<exists>x s1. r = Some (Inr x, s1) \<and> f x s1 = Some (Inl e, s'))"
  by (auto simp: andThen_def split: option.splits sum.splits prod.splits)

lemma withDone_no_error: "withDone options r \<noteq> Some (Inl e, s')"
  by (simp add: withDone_def)

lemma setProperty_error: "setProperty a k v s = Inl e \<Longrightarrow> e = TypeError"
  by (auto simp: setProperty_def split: option.splits propkey.splits hostobj.splits)

lemma lua_next_error: "lua_next L idx s = Inl e \<Longrightarrow> e = LuaPanic"
  by (auto simp: lua_next_def Let_def split: if_splits option.splits lvalue.splits lobject.splits prod.splits)

lemma no_IndexZero:
  "(\<forall>this idx ty options s s'. idx \<noteq> 0 \<longrightarrow> getValue n this idx ty options s \<noteq> Some (Inl IndexZero, s'))
   \<and> (\<forall>this idx d s s'. getTableValue n this idx d s \<noteq> Some (Inl IndexZero, s'))
   \<and> (\<forall>this idx t d s s'. getTableLoop n this idx t d s \<noteq> Some (Inl IndexZero, s'))"
proof (induction n)
  case 0
  show ?case by simp
next
  case (Suc n)
  have val: "\<And>this idx ty options s s'. idx \<noteq> 0 \<Longrightarrow> getValue n this idx ty options s \<noteq> Some (Inl IndexZero, s')"
    and tab: "\<And>this idx d s s'. getTableValue n this idx d s \<noteq> Some (Inl IndexZero, s')"
    and loop: "\<And>this idx t d s s'. getTableLoop n this idx t d s \<noteq> Some (Inl IndexZero, s')"
    using Suc.IH by blast+
  have 1: "getValue (Suc n) this idx ty options s \<noteq> Some (Inl IndexZero, s')" if "idx \<noteq> 0"
    for this idx ty options s s'
  proof
    assume a: "getValue (Suc n) this idx ty options s = Some (Inl IndexZero, s')"
    show False
    proof (cases "resolveType s (address this) idx ty")
      case TypeTable
      then show False
        using a that tab by (auto simp: withDone_no_error dest!: andThen_error split: if_splits)
    qed (use a that in \<open>auto simp: withDone_no_error split: if_splits option.splits prod.splits\<close>)
  qed
  have 2: "getTableValue (Suc n) this idx d s \<noteq> Some (Inl IndexZero, s')" for this idx d s s'
    using loop by (auto simp: Let_def split: option.splits prod.splits)
  have 3: "getTableLoop (Suc n) this idx t d s \<noteq> Some (Inl IndexZero, s')" for this idx t d s s'
  proof
    assume a: "getTableLoop (Suc n) this idx t d s = Some (Inl IndexZero, s')"
    show False
    proof (cases "lua_next (address this) idx s")
      case (Inl e)
      then show False using a lua_next_error[OF Inl] by simp
    next
      case (Inr r)
      obtain more s1 where r: "r = (more, s1)" by (cases r)
      show False
      proof (cases more)
        case False
        then show False using a Inr r by simp
      next
        case True
        from a Inr r True have
          "andThen (getValue n this (- 2) (Some (lua_type s1 (address this) (- 2)))
                     \<lparr>g_raw = False, g_sync = False, g_done = Some d\<rparr> s1)
            (\<lambda>k s2.
               andThen (getValue n this (- 1) (Some (lua_type s2 (address this) (- 1)))
                          \<lparr>g_raw = False, g_sync = False, g_done = snd k\<rparr> s2)
                 (\<lambda>v s3.
                    case setProperty t (fst k) (fst v) s3 of
                      Inl e \<Rightarrow> Some (Inl e, s3)
                    | Inr s4 \<Rightarrow>
                        getTableLoop n this idx t (case snd v of None \<Rightarrow> d | Some d' \<Rightarrow> d')
                          (pop this 1 s4))) = Some (Inl IndexZero, s')"
          by simp
        then show False
          using val[of "- 2"] val[of "- 1"] loop
          by (auto dest!: andThen_error setProperty_error split: sum.splits)
      qed
    qed
  qed
  show ?case using 1 2 3 by blast
qed

text \<open>
  C9. \<^verbatim>\<open>getValue\<close> with index 0 throws before it reads or changes anything; with any other
  index it never throws that error, neither at the outer call nor in the calls it makes for
  the entries of a table, and for a slot that holds no table or function it returns a value.
\<close>

theorem getValue_index_zero:
  "getValue (Suc n) this 0 ty options s = Some (Inl IndexZero, s)
   \<and> (idx \<noteq> 0 \<longrightarrow> getValue k this idx ty options s \<noteq> Some (Inl IndexZero, s'))
   \<and> (idx \<noteq> 0 \<and> (g_raw options \<or> resolveType s (address this) idx ty \<noteq> TypeTable)
        \<longrightarrow> (\<exists>v s1. getValue (Suc n) this idx ty options s = Some (Inr v, s1)))"
proof -
  have returns: "\<exists>v s1. getValue (Suc n) this idx ty options s = Some (Inr v, s1)"
    if "idx \<noteq> 0" "g_raw options \<or> resolveType s (address this) idx ty \<noteq> TypeTable"
    using that
    by (cases "resolveType s (address this) idx ty")
       (auto simp: withDone_def split: option.splits prod.splits)
  show ?thesis
    using no_IndexZero[of k] returns by simp
qed

theorem getValue_index_zero_witness:
  "getValue (Suc 0) ex_root 0 None defaultGetOptions ex_state = Some (Inl IndexZero, ex_state)
   \<and> (- 1 :: int) \<noteq> 0
   \<and> getValue 5 ex_root (- 1) None defaultGetOptions ex_state \<noteq> Some (Inl IndexZero, ex_state)
   \<and> (g_raw defaultGetOptions \<or> resolveType ex_state (address ex_root) (- 1) None \<noteq> TypeTable)
   \<and> (\<exists>v s1. getValue (Suc 0) ex_root (- 1) None defaultGetOptions ex_state = Some (Inr v, s1))"
proof -
  have ty: "resolveType ex_state (address ex_root) (- 1) None \<noteq> TypeTable"
    by (simp add: resolveType_def lua_type_def index2value_def absIndex_def stackOf_def
        ex_state_def ex_root_def)
  show ?thesis
    using getValue_index_zero[of 0 ex_root None defaultGetOptions ex_state "- 1" 5 ex_state] ty
    by simp
qed

section \<open>Primitive values through the stack\<close>

lemma index2value_top: "index2value (lua_push L x s) L (- 1) = Some x"
  by (simp add: index2value_def absIndex_def lua_push_def setStack_def stackOf_def)

lemma lua_type_top: "lua_type (lua_push L x s) L (- 1) = typeOfValue x"
  by (simp add: lua_type_def index2value_top)

lemma sint_word_of_int_64:
  assumes "- (2 ^ 63) \<le> i" "i < 2 ^ 63"
  shows "sint (word_of_int i :: 64 word) = i"
proof -
  have "(i + 2 ^ 63) mod 2 ^ 64 = i + 2 ^ 63"
    using assms by (intro mod_pos_pos_trivial) auto
  then show ?thesis
    by (simp add: int_word_sint)
qed

lemma takeWhile_no_NUL: "CHR 0x00 \<notin> set t \<Longrightarrow> takeWhile (\<lambda>c. c \<noteq> CHR 0x00) t = t"
  by (induction t) auto

lemma push_primitive:
  "pushValue (Suc n) this JUndefined defaultPushOptions s = Some (Inr None, lua_pushnil (address this) s)"
  "pushValue (Suc n) this JNull defaultPushOptions s = Some (Inr None, lua_pushnil (address this) s)"
  "pushValue (Suc n) this (JBoolean b) defaultPushOptions s = Some (Inr None, lua_pushboolean (address this) b s)"
  "pushValue (Suc n) this (JString t) defaultPushOptions s = Some (Inr None, lua_pushstring (address this) t s)"
  "pushValue (Suc n) this (JNumber (Integer i)) defaultPushOptions s = Some (Inr None, lua_pushinteger (address this) i s)"
  "pushValue (Suc n) this (JNumber (NonInteger x)) defaultPushOptions s
     = Some (Inr None, lua_pushnumber (address this) (NonInteger x) s)"
  by (simp_all add: getValueDecorations_def doneLookup_def defaultPushOptions_def
      pushNumber_def pushString_def pushBoolean_def)

lemma get_top:
  "getValue (Suc n) this (- 1) None defaultGetOptions (lua_push (address this) x s)
     = (case x of
          LNil \<Rightarrow> Some (Inr (JNull, None), lua_push (address this) x s)
        | LBoolean b \<Rightarrow> Some (Inr (JBoolean b, None), lua_push (address this) x s)
        | LInteger w \<Rightarrow> Some (Inr (JNumber (Integer (sint w)), None), lua_push (address this) x s)
        | LFloat y \<Rightarrow> Some (Inr (JNumber y, None), lua_push (address this) x s)
        | LString t \<Rightarrow> Some (Inr (JString t, None), lua_push (address this) x s)
        | _ \<Rightarrow> getValue (Suc n) this (- 1) None defaultGetOptions (lua_push (address this) x s))"
  by (cases x)
     (simp_all add: resolveType_def lua_type_top withDone_def defaultGetOptions_def
        lua_toboolean_def lua_tonumberx_def lua_tolstring_def index2value_top)

text \<open>
  C1 (as amended). A representable primitive comes back from the stack as it went in;
  \<^verbatim>\<open>undefined\<close> comes back as \<^verbatim>\<open>null\<close>.
\<close>

theorem roundTrip_primitive:
  "(representable v \<longrightarrow> roundTrip (Suc n) this v s = Some (Inr v))
   \<and> roundTrip (Suc n) this JUndefined s = Some (Inr JNull)"
proof -
  have undef: "roundTrip (Suc n) this JUndefined s = Some (Inr JNull)"
    by (simp add: roundTrip_def push_primitive lua_pushnil_def get_top
        del: pushValue.simps getValue.simps)
  have prim: "roundTrip (Suc n) this v s = Some (Inr v)" if "representable v"
  proof (cases v)
    case (JNumber x)
    then show ?thesis
      using that
      by (cases x)
         (simp_all add: roundTrip_def push_primitive lua_pushinteger_def lua_pushnumber_def get_top
            sint_word_of_int_64 del: pushValue.simps getValue.simps)
  qed (use that in \<open>simp_all add: roundTrip_def push_primitive lua_pushnil_def lua_pushboolean_def
        lua_pushstring_def get_top takeWhile_no_NUL del: pushValue.simps getValue.simps\<close>)
  show ?thesis
    using undef prim by simp
qed

theorem roundTrip_primitive_witness:
  "representable (JNumber (Integer (- 42)))
   \<and> roundTrip (Suc 0) ex_root (JNumber (Integer (- 42))) ex_state = Some (Inr (JNumber (Integer (- 42))))
   \<and> representable (JString ''guest'')
   \<and> roundTrip (Suc 0) ex_root (JString ''guest'') ex_state = Some (Inr (JString ''guest''))
   \<and> roundTrip (Suc 0) ex_root JUndefined ex_state = Some (Inr JNull)"
  using roundTrip_primitive[of "JNumber (Integer (- 42))" 0 ex_root ex_state]
    roundTrip_primitive[of "JString ''guest''" 0 ex_root ex_state]
  by simp

text \<open>
  C1 as stated fails for \<^verbatim>\<open>undefined\<close>: it is pushed as nil, and nil is read back as
  \<^verbatim>\<open>null\<close>.
\<close>

theorem roundTrip_undefined_counterexample:
  "roundTrip (Suc 0) ex_root JUndefined ex_state = Some (Inr JNull) \<and> JNull \<noteq> JUndefined"
  by (simp add: roundTrip_def push_primitive lua_pushnil_def get_top
      del: pushValue.simps getValue.simps)

section \<open>Values without a guest representation\<close>

lemma unsupported_cases:
  "\<not> supported (typeof H v) \<Longrightarrow> (\<exists>x. v = JSymbol x) \<or> (\<exists>i. v = JBigInt i)"
  by (cases v) (auto simp: supported_def split: option.splits hostobj.splits)

text \<open>
  C8 (as amended). A value of an unsupported type, pushed without the \<^verbatim>\<open>reference\<close> option and
  without a hit in the guard map, makes \<^verbatim>\<open>pushValue\<close> throw the unsupported-type error and
  leaves the state, the guest stack included, as it was.
\<close>

theorem pushValue_unsupported:
  assumes "\<not> supported (typeof (heap s) v)"
      and "\<not> p_reference options"
      and "doneLookup (heap s) options v = Inr None"
  shows "pushValue (Suc n) this v options s = Some (Inl (UnsupportedType (typeof (heap s) v)), s)"
proof -
  from unsupported_cases[OF assms(1)] show ?thesis
  proof (elim disjE exE)
    fix x assume "v = JSymbol x"
    then show ?thesis
      using assms(2,3) by (simp add: getValueDecorations_def isThread_def)
  next
    fix i assume "v = JBigInt i"
    then show ?thesis
      using assms(2,3) by (simp add: getValueDecorations_def isThread_def)
  qed
qed

theorem pushValue_unsupported_witness:
  "\<not> supported (typeof (heap ex_state) (JSymbol 0))
   \<and> \<not> p_reference defaultPushOptions
   \<and> doneLookup (heap ex_state) defaultPushOptions (JSymbol 0) = Inr None
   \<and> pushValue (Suc 0) ex_root (JSymbol 0) defaultPushOptions ex_state
       = Some (Inl (UnsupportedType TSymbol), ex_state)"
proof -
  have a: "\<not> supported (typeof (heap ex_state) (JSymbol 0))"
    by (simp add: supported_def)
  have b: "\<not> p_reference defaultPushOptions"
    by (simp add: defaultPushOptions_def)
  have c: "doneLookup (heap ex_state) defaultPushOptions (JSymbol 0) = Inr None"
    by (simp add: doneLookup_def defaultPushOptions_def)
  show ?thesis
    using pushValue_unsupported[OF a b c, of 0 ex_root] a b c by simp
qed

text \<open>
  C8 as stated fails when the caller asks for a reference, and when the guard map has an
  entry under the value's key: a symbol is then wrapped as an opaque reference, and the
  big integer 5 inside the array \<^verbatim>\<open>[5n]\<close> is pushed as a copy of the array's table.
\<close>

theorem pushValue_unsupported_counterexample:
  "\<not> supported (typeof (heap ex_state) (JSymbol 0))
   \<and> map_option (\<lambda>r. (case fst r of Inl e \<Rightarrow> Some e | Inr d \<Rightarrow> None, stackOf (snd r) 1))
        (pushValue (Suc 0) ex_root (JSymbol 0) (defaultPushOptions\<lparr>p_reference := True\<rparr>) ex_state)
       = Some (None, [LUserData 4])
   \<and> \<not> supported (typeof (heap (ex_with [(1, ArrayObject PlainArray [JBigInt 5])])) (JBigInt 5))
   \<and> map_option (\<lambda>r. (case fst r of Inl e \<Rightarrow> Some e | Inr d \<Rightarrow> None, stackOf (snd r) 1))
        (pushValue 3 ex_root (JObject 1) defaultPushOptions (ex_with [(1, ArrayObject PlainArray [JBigInt 5])]))
       = Some (None, [LTable 4])"
  by code_simp

section \<open>A thread pushed as a value\<close>

text \<open>
  C10. Pushing the wrapper of another context: \<^verbatim>\<open>pushValue\<close> returns normally, the stack of
  the pushing context is as tall as before, and the thread value sits on the other context's
  own stack.
\<close>

theorem pushValue_thread_other_stack:
  "address ex_child \<noteq> address ex_root
   \<and> stackOf ex_spawned (address ex_root) = [LThread 2]
   \<and> stackOf ex_spawned (address ex_child) = []
   \<and> map_option (\<lambda>r. (case fst r of Inl e \<Rightarrow> Some e | Inr d \<Rightarrow> None,
                        stackOf (snd r) (address ex_root), stackOf (snd r) (address ex_child)))
        (pushValue (Suc 0) ex_root (JThread ex_child) defaultPushOptions ex_spawned)
       = Some (None, [LThread 2], [LThread 2])"
  by code_simp

section \<open>A decoration in a cycle\<close>

lemma heap_lua_createtable: "heap (lua_createtable L s) = heap s"
  by (simp add: lua_createtable_def newObject_def lua_push_def setStack_def)

lemma heap_lua_pushstring: "heap (lua_pushstring L t s) = heap s"
  by (simp add: lua_pushstring_def lua_push_def setStack_def)

lemma cyclic_heap:
  "heap ex_cyclic =
     [(1, DecorationObject (JObject 2) (JObject 3)),
      (2, ArrayObject PlainArray []),
      (3, PlainObject [(''metatable'', JObject 4)]),
      (4, PlainObject [(''self'', JObject 1)])]"
  by (simp add: ex_cyclic_def ex_with_def)

lemma cyclic_diverges:
  assumes "heap s = heap ex_cyclic"
      and "\<not> p_reference options"
      and "\<forall>d. p_done options = Some d \<longrightarrow> d (KString []) = None"
  shows "pushValue n this (JObject 1) options s = None"
  using assms
proof (induction n arbitrary: s options rule: less_induct)
  case (less n)
  note H = less.prems(1)[unfolded cyclic_heap]
  have look: "doneLookup (heap s) options (JObject 2) = Inr None"
    using less.prems(3) H by (auto simp: doneLookup_def toPropertyKey_def split: option.splits)
  show ?case
  proof (cases n)
    case 0
    then show ?thesis by simp
  next
    case n1: (Suc n1)
    define s1 where "s1 = lua_createtable (address this) s"
    have H1: "heap s1 = heap s"
      by (simp add: s1_def heap_lua_createtable)
    have outer: "pushValue (Suc n1) this (JObject 1) options s
        = andThen (pushValue n1 this (JObject 4) defaultPushOptions s1)
            (\<lambda>d s3. Some (Inr (Some ((case p_done options of None \<Rightarrow> Map.empty | Some d \<Rightarrow> d)
                                       (KString [] \<mapsto> getTop this s + 1))),
                           lua_setmetatable (address this) (- 2) s3))"
      using H look less.prems(2)
      by (simp add: getValueDecorations_def isThread_def promiseOf_def toPropertyKey_def
          arrayElements_def andThen_def decorationProperty_def getProperty_def
          enumerate_props_def heap_lua_createtable s1_def Let_def)
    show ?thesis
    proof (cases n1)
      case 0
      then show ?thesis using n1 outer by (simp add: andThen_def)
    next
      case n2: (Suc n2)
      define s2 where "s2 = lua_createtable (address this) s1"
      define done2 where "done2 = [KString ''[object Object]'' \<mapsto> getTop this s1 + 1]"
      have meta: "pushValue (Suc n2) this (JObject 4) defaultPushOptions s1
          = andThen (pushObject n2 this (getTop this s1 + 1) done2 [(''self'', JObject 1)] s2)
              (\<lambda>done' s3. Some (Inr (Some done'), s3))"
        using H H1
        by (simp add: getValueDecorations_def isThread_def promiseOf_def toPropertyKey_def
            arrayElements_def decorationProperty_def doneLookup_def defaultPushOptions_def
            enumerate_props_def heap_lua_createtable s2_def done2_def Let_def)
      have inner: "pushObject n2 this (getTop this s1 + 1) done2 [(''self'', JObject 1)] s2 = None"
      proof (cases n2)
        case 0
        then show ?thesis by (simp add: andThen_def)
      next
        case n3: (Suc n3)
        define s3 where "s3 = lua_pushstring (address this) ''self'' s2"
        have key: "pushValue (Suc n3) this (JString ''self'') defaultPushOptions s2 = Some (Inr None, s3)"
          by (simp add: getValueDecorations_def doneLookup_def defaultPushOptions_def pushString_def s3_def)
        have H3: "heap s3 = heap ex_cyclic"
          using less.prems(1) H1 by (simp add: s3_def s2_def heap_lua_pushstring heap_lua_createtable)
        have "Suc n3 < n"
          using n1 n2 n3 by simp
        then have again: "pushValue (Suc n3) this (JObject 1) (defaultPushOptions\<lparr>p_done := Some done2\<rparr>) s3 = None"
          using less.IH[of "Suc n3" s3 "defaultPushOptions\<lparr>p_done := Some done2\<rparr>"] H3
          by (simp add: defaultPushOptions_def done2_def)
        show ?thesis
          unfolding n3 using key again by (simp add: andThen_def del: pushValue.simps)
      qed
      show ?thesis
        using n1 n2 outer meta inner by (simp add: andThen_def)
    qed
  qed
qed

text \<open>
  C6. A decorated array whose metatable leads back to the decoration: \<^verbatim>\<open>pushValue\<close> does not
  return, whatever the fuel. The metatable is pushed with a guard map of its own, so the
  decorated array is converted again each time round the cycle.
\<close>

theorem pushValue_diverges_on_decoration_cycle:
  "pushValue n ex_root (JObject 1) defaultPushOptions ex_cyclic = None"
  by (rule cyclic_diverges) (simp_all add: defaultPushOptions_def)



section \<open>A rejected promise in run\<close>

text \<open>Reading values never resumes the guest: \<open>resumes\<close> is left alone.\<close>

lemma resumes_push [simp]: "resumes (lua_push L v s) = resumes s"
  by (simp add: lua_push_def setStack_def)

lemma resumes_pop [simp]: "resumes (pop this k s) = resumes s"
  by (simp add: pop_def lua_pop_def setStack_def)

lemma resumes_newHostObject [simp]: "resumes (snd (newHostObject ob s)) = resumes s"
  by (simp add: newHostObject_def)

lemma resumes_newPointer [simp]: "resumes (snd (newPointer p s)) = resumes s"
  by (simp add: newPointer_def split: prod.splits)
     (metis resumes_newHostObject snd_conv)

lemma resumes_getFunction [simp]: "resumes (snd (getFunction this idx s)) = resumes s"
  by (auto simp: getFunction_def lua_pushvalue_def luaL_ref_def newHostObject_def setStack_def Let_def
      split: prod.splits if_splits)

lemma resumes_stateToThread [simp]: "resumes (snd (stateToThread this L s)) = resumes s"
  by (auto simp: stateToThread_def newThreadObject_def split: option.splits)

lemma resumes_getDefault [simp]: "resumes (snd (getDefault this idx s)) = resumes s"
  by (simp add: getDefault_def luaL_tolstring_def Let_def)

lemma resumes_lua_next: "lua_next L idx s = Inr (b, s1) \<Longrightarrow> resumes s1 = resumes s"
  by (auto simp: lua_next_def setStack_def Let_def
      split: if_splits option.splits lvalue.splits lobject.splits prod.splits)

lemma resumes_setProperty: "setProperty a k v s = Inr s1 \<Longrightarrow> resumes s1 = resumes s"
  by (auto simp: setProperty_def split: option.splits propkey.splits hostobj.splits)

lemma resumes_await: "await p s = (f, s') \<Longrightarrow> resumes s' = resumes s"
proof (induction p arbitrary: s f s')
  case (Settles x)
  then show ?case by simp
next
  case (Then p c)
  obtain f1 s1 where a: "await p s = (f1, s1)"
    by (cases "await p s")
  have "resumes s1 = resumes s"
    using Then.IH a by blast
  then show ?case
    using Then.prems a by (cases f1) auto
qed

lemma andThen_Some:
  "andThen r f = Some (x, s') \<Longrightarrow>
     (\<exists>e. r = Some (Inl e, s') \<and> x = Inl e) \<or> (\<exists>y s1. r = Some (Inr y, s1) \<and> f y s1 = Some (x, s'))"
  by (auto simp: andThen_def split: option.splits sum.splits prod.splits)

lemma withDone_Some: "withDone options r = Some (x, s') \<Longrightarrow> s' = snd r"
  by (auto simp: withDone_def)

lemma resumes_getValue:
  "(\<forall>this idx ty options s x s'. getValue n this idx ty options s = Some (x, s') \<longrightarrow> resumes s' = resumes s)
   \<and> (\<forall>this idx d s x s'. getTableValue n this idx d s = Some (x, s') \<longrightarrow> resumes s' = resumes s)
   \<and> (\<forall>this idx t d s x s'. getTableLoop n this idx t d s = Some (x, s') \<longrightarrow> resumes s' = resumes s)"
proof (induction n)
  case 0
  show ?case by simp
next
  case (Suc n)
  have val: "\<And>this idx ty options s x s'. getValue n this idx ty options s = Some (x, s') \<Longrightarrow> resumes s' = resumes s"
    and tab: "\<And>this idx d s x s'. getTableValue n this idx d s = Some (x, s') \<Longrightarrow> resumes s' = resumes s"
    and loop: "\<And>this idx t d s x s'. getTableLoop n this idx t d s = Some (x, s') \<Longrightarrow> resumes s' = resumes s"
    using Suc.IH by blast+
  have 1: "resumes s' = resumes s" if a: "getValue (Suc n) this idx ty options s = Some (x, s')"
    for this idx ty options s x s'
  proof (cases "idx = 0")
    case True
    then show ?thesis using a by simp
  next
    case False
    show ?thesis
    proof (cases "resolveType s (address this) idx ty")
      case TypeTable
      show ?thesis
      proof (cases "g_raw options")
        case True
        then show ?thesis
          using a False TypeTable by (auto dest!: withDone_Some)
      next
        case raw: False
        from a False TypeTable raw have
          "andThen (getTableValue n this idx (g_done options) s)
             (\<lambda>r s1. Some (Inr (fst r, case g_done options of None \<Rightarrow> None | Some d \<Rightarrow> Some (snd r)), s1))
           = Some (x, s')"
          by simp
        then show ?thesis
          using tab by (auto dest!: andThen_Some)
      qed
    next
      case TypeThread
      then show ?thesis
        using a False
        by (auto dest!: withDone_Some split: if_splits prod.splits)
           (metis resumes_stateToThread snd_conv)
    qed (use a False in \<open>auto dest!: withDone_Some split: if_splits option.splits\<close>)
  qed
  have 2: "resumes s' = resumes s" if a: "getTableValue (Suc n) this idx d s = Some (x, s')"
    for this idx d s x s'
  proof -
    obtain t s1 where n1: "newHostObject (PlainObject []) s = (t, s1)"
      by (cases "newHostObject (PlainObject []) s")
    have r1: "resumes s1 = resumes s"
      using resumes_newHostObject[of "PlainObject []" s] n1 by simp
    show ?thesis
      using a n1 r1 loop[of this _ t _ "lua_pushnil (address this) s1" x s']
      by (auto simp: Let_def lua_pushnil_def split: option.splits)
  qed
  have 3: "resumes s' = resumes s" if a: "getTableLoop (Suc n) this idx t d s = Some (x, s')"
    for this idx t d s x s'
  proof (cases "lua_next (address this) idx s")
    case (Inl e)
    then show ?thesis using a by simp
  next
    case (Inr r)
    obtain more s1 where r: "r = (more, s1)" by (cases r)
    have r1: "resumes s1 = resumes s"
      using resumes_lua_next Inr r by blast
    show ?thesis
    proof (cases more)
      case False
      then show ?thesis using a Inr r r1 by simp
    next
      case True
      from a Inr r True have
        "andThen (getValue n this (- 2) (Some (lua_type s1 (address this) (- 2)))
                   \<lparr>g_raw = False, g_sync = False, g_done = Some d\<rparr> s1)
          (\<lambda>k s2.
             andThen (getValue n this (- 1) (Some (lua_type s2 (address this) (- 1)))
                        \<lparr>g_raw = False, g_sync = False, g_done = snd k\<rparr> s2)
               (\<lambda>v s3.
                  case setProperty t (fst k) (fst v) s3 of
                    Inl e \<Rightarrow> Some (Inl e, s3)
                  | Inr s4 \<Rightarrow>
                      getTableLoop n this idx t (case snd v of None \<Rightarrow> d | Some d' \<Rightarrow> d')
                        (pop this 1 s4))) = Some (x, s')"
        by simp
      then show ?thesis
        using r1
        by (auto dest!: andThen_Some val loop resumes_setProperty split: sum.splits)
    qed
  qed
  show ?case using 1 2 3 by blast
qed

lemma resumes_dumpSlots:
  "dumpSlots is n this s = Some (x, s') \<Longrightarrow> resumes s' = resumes s"
proof (induction "is" arbitrary: s)
  case Nil
  then show ?case by simp
next
  case (Cons i rest)
  from Cons.prems show ?case
    using resumes_getValue[of n] Cons.IH
    by (auto dest!: andThen_Some)
qed

lemma resumes_dumpStack: "dumpStack n this s = Some (x, s') \<Longrightarrow> resumes s' = resumes s"
  by (simp add: dumpStack_def resumes_dumpSlots)

lemma resumes_resume: "resume m this argCount s = (x, s') \<Longrightarrow> resumes s' = Suc (resumes s)"
  by (auto simp: resume_def lua_resume_def assertOk_def split: prod.splits if_splits)


lemma runLoop_awaits:
  assumes y: "result r = Yield" and c: "0 < resultCount r"
      and d: "dumpStack n this s1 = Some (Inr (), s2)"
      and g: "getValue n this (- 1) None defaultGetOptions s2 = Some (Inr (v, dn), s3)"
      and p: "promiseOf (heap (pop this (resultCount r) s3)) v = Some pr"
      and a: "await pr (pop this (resultCount r) s3) = (f, s4)"
  shows "runLoop (Suc n) m this r s1 =
           (case f of
              Rejects e \<Rightarrow> Some (Inl (Rejection e), s4)
            | Fulfils x \<Rightarrow>
                (case resume m this 0 s4 of
                   (Inl e, s5) \<Rightarrow> Some (Inl e, s5)
                 | (Inr r', s5) \<Rightarrow> runLoop n m this r' s5)
            | NeverSettles \<Rightarrow> None)"
  using assms by (cases f) (simp_all add: andThen_def awaitYielded_def Let_def)

text \<open>
  C4 (as amended). When the first resumption yields a promise: if the promise rejects with
  \<open>e\<close>, \<^verbatim>\<open>run\<close> throws \<open>e\<close> and the guest has been resumed once, by the initial call only; if it
  fulfils, \<^verbatim>\<open>run\<close> goes on to resume the guest with argument count 0.
\<close>

theorem run_rejected_promise:
  assumes first: "resume m this argCount s = (Inr r, s1)"
      and y: "result r = Yield" and c: "0 < resultCount r"
      and d: "dumpStack n this s1 = Some (Inr (), s2)"
      and g: "getValue n this (- 1) None defaultGetOptions s2 = Some (Inr (v, dn), s3)"
      and p: "promiseOf (heap (pop this (resultCount r) s3)) v = Some pr"
      and a: "await pr (pop this (resultCount r) s3) = (f, s4)"
  shows "(f = Rejects e \<longrightarrow>
            run (Suc n) m this argCount s = Some (Inl (Rejection e), s4)
            \<and> resumes s4 = Suc (resumes s))
       \<and> (f = Fulfils x \<longrightarrow>
            run (Suc n) m this argCount s =
              (case resume m this 0 s4 of
                 (Inl e', s5) \<Rightarrow> Some (Inl e', s5)
               | (Inr r', s5) \<Rightarrow> runLoop n m this r' s5))"
proof -
  have loop: "run (Suc n) m this argCount s = runLoop (Suc n) m this r s1"
    using first by (simp add: run_def del: runLoop.simps)
  have "resumes s1 = Suc (resumes s)"
    using resumes_resume[OF first] .
  moreover have "resumes s2 = resumes s1"
    using resumes_dumpStack[OF d] .
  moreover have "resumes s3 = resumes s2"
    using resumes_getValue[of n] g by blast
  moreover have "resumes s4 = resumes (pop this (resultCount r) s3)"
    using resumes_await[OF a] .
  ultimately have count: "resumes s4 = Suc (resumes s)"
    by simp
  show ?thesis
    unfolding loop runLoop_awaits[OF y c d g p a] using count by simp
qed

lemma returned_value:
  "map_option (\<lambda>x. isl (fst x)) r = Some False \<Longrightarrow> r = Some (Inr (projr (fst (the r))), snd (the r))"
  by (cases r) (auto simp: isl_def split: sum.splits)

lemma run_example:
  assumes yields: "fst (resume (ex_machine p) ex_root 0 (ex_with ex_heap)) = Inr \<lparr>result = Yield, resultCount = 1\<rparr>"
  defines "s1 \<equiv> snd (resume (ex_machine p) ex_root 0 (ex_with ex_heap))"
  assumes dumps: "map_option (\<lambda>x. isl (fst x)) (dumpStack 8 ex_root s1) = Some False"
  defines "s2 \<equiv> snd (the (dumpStack 8 ex_root s1))"
  assumes gets: "map_option (\<lambda>x. isl (fst x)) (getValue 8 ex_root (- 1) None defaultGetOptions s2) = Some False"
  defines "v \<equiv> fst (projr (fst (the (getValue 8 ex_root (- 1) None defaultGetOptions s2))))"
      and "s3 \<equiv> snd (the (getValue 8 ex_root (- 1) None defaultGetOptions s2))"
  assumes promise: "promiseOf (heap (pop ex_root 1 s3)) v = Some pr"
  shows "resume (ex_machine p) ex_root 0 (ex_with ex_heap) = (Inr \<lparr>result = Yield, resultCount = 1\<rparr>, s1)"
    and "dumpStack 8 ex_root s1 = Some (Inr (), s2)"
    and "\<exists>dn. getValue 8 ex_root (- 1) None defaultGetOptions s2 = Some (Inr (v, dn), s3)"
    and "await pr (pop ex_root 1 s3) = (fst (await pr (pop ex_root 1 s3)), snd (await pr (pop ex_root 1 s3)))"
proof -
  show "resume (ex_machine p) ex_root 0 (ex_with ex_heap) = (Inr \<lparr>result = Yield, resultCount = 1\<rparr>, s1)"
    using yields by (simp add: s1_def prod_eq_iff)
  show "dumpStack 8 ex_root s1 = Some (Inr (), s2)"
    using returned_value[OF dumps] by (simp add: s2_def)
  have "getValue 8 ex_root (- 1) None defaultGetOptions s2
      = Some (Inr (v, snd (projr (fst (the (getValue 8 ex_root (- 1) None defaultGetOptions s2))))), s3)"
    using returned_value[OF gets] by (simp add: v_def s3_def)
  then show "\<exists>dn. getValue 8 ex_root (- 1) None defaultGetOptions s2 = Some (Inr (v, dn), s3)"
    by blast
  show "await pr (pop ex_root 1 s3) = (fst (await pr (pop ex_root 1 s3)), snd (await pr (pop ex_root 1 s3)))"
    by simp
qed


theorem run_rejected_promise_witness:
  "map_option fst (run (Suc 8) (ex_machine (JObject 1)) ex_root 0 (ex_with ex_heap))
     = Some (Inl (Rejection (JString ''boom'')))
   \<and> map_option (\<lambda>x. resumes (snd x)) (run (Suc 8) (ex_machine (JObject 1)) ex_root 0 (ex_with ex_heap))
     = Some 1
   \<and> map_option fst (run (Suc 8) (ex_machine (JObject 3)) ex_root 0 (ex_with ex_heap))
     = Some (Inr \<lparr>result = Ok, resultCount = 0\<rparr>)"
proof -
  let ?S = "ex_with ex_heap"
  have rejected:
    "run (Suc 8) (ex_machine (JObject 1)) ex_root 0 ?S
       = Some (Inl (Rejection (JString ''boom'')),
               snd (await (Then (Settles (Rejects (JString ''boom''))) 0)
                      (pop ex_root 1
                         (snd (the (getValue 8 ex_root (- 1) None defaultGetOptions
                            (snd (the (dumpStack 8 ex_root (snd (resume (ex_machine (JObject 1)) ex_root 0 ?S)))))))))))
     \<and> resumes (snd (await (Then (Settles (Rejects (JString ''boom''))) 0)
                      (pop ex_root 1
                         (snd (the (getValue 8 ex_root (- 1) None defaultGetOptions
                            (snd (the (dumpStack 8 ex_root (snd (resume (ex_machine (JObject 1)) ex_root 0 ?S))))))))))) = Suc (resumes ?S)"
  proof -
    let ?M = "ex_machine (JObject 1)"
    let ?s1 = "snd (resume ?M ex_root 0 ?S)"
    let ?s2 = "snd (the (dumpStack 8 ex_root ?s1))"
    let ?g = "the (getValue 8 ex_root (- 1) None defaultGetOptions ?s2)"
    let ?pr = "Then (Settles (Rejects (JString ''boom''))) 0"
    have y: "fst (resume ?M ex_root 0 ?S) = Inr \<lparr>result = Yield, resultCount = 1\<rparr>"
      by code_simp
    have d: "map_option (\<lambda>x. isl (fst x)) (dumpStack 8 ex_root ?s1) = Some False"
      by code_simp
    have g: "map_option (\<lambda>x. isl (fst x)) (getValue 8 ex_root (- 1) None defaultGetOptions ?s2) = Some False"
      by code_simp
    have p: "promiseOf (heap (pop ex_root 1 (snd ?g))) (fst (projr (fst ?g))) = Some ?pr"
      by code_simp
    have f: "fst (await ?pr (pop ex_root 1 (snd ?g))) = Rejects (JString ''boom'')"
      by simp
    note ex = run_example[OF y d g p]
    obtain dn where g': "getValue 8 ex_root (- 1) None defaultGetOptions ?s2
        = Some (Inr (fst (projr (fst ?g)), dn), snd ?g)"
      using ex(3) by blast
    have p': "promiseOf (heap (pop ex_root (resultCount \<lparr>result = Yield, resultCount = 1\<rparr>) (snd ?g)))
                (fst (projr (fst ?g))) = Some ?pr"
      using p by simp
    have a': "await ?pr (pop ex_root (resultCount \<lparr>result = Yield, resultCount = 1\<rparr>) (snd ?g))
        = (Rejects (JString ''boom''), snd (await ?pr (pop ex_root 1 (snd ?g))))"
      using f by (simp add: prod_eq_iff)
    show ?thesis
      using run_rejected_promise[OF ex(1) _ _ ex(2) g' p' a', of "JString ''boom''"]
      by simp
  qed
  have zero: "resumes ?S = 0"
    by (simp add: ex_with_def ex_state_def)
  have fulfilled:
    "map_option fst (run (Suc 8) (ex_machine (JObject 3)) ex_root 0 ?S)
       = Some (Inr \<lparr>result = Ok, resultCount = 0\<rparr>)"
  proof -
    let ?M = "ex_machine (JObject 3)"
    let ?s1 = "snd (resume ?M ex_root 0 ?S)"
    let ?s2 = "snd (the (dumpStack 8 ex_root ?s1))"
    let ?g = "the (getValue 8 ex_root (- 1) None defaultGetOptions ?s2)"
    let ?pr = "Then (Settles (Fulfils (JNumber (Integer 7)))) 0"
    let ?s4 = "snd (await ?pr (pop ex_root 1 (snd ?g)))"
    have y: "fst (resume ?M ex_root 0 ?S) = Inr \<lparr>result = Yield, resultCount = 1\<rparr>"
      by code_simp
    have d: "map_option (\<lambda>x. isl (fst x)) (dumpStack 8 ex_root ?s1) = Some False"
      by code_simp
    have g: "map_option (\<lambda>x. isl (fst x)) (getValue 8 ex_root (- 1) None defaultGetOptions ?s2) = Some False"
      by code_simp
    have p: "promiseOf (heap (pop ex_root 1 (snd ?g))) (fst (projr (fst ?g))) = Some ?pr"
      by code_simp
    have f: "fst (await ?pr (pop ex_root 1 (snd ?g))) = Fulfils JUndefined"
      by simp
    note ex = run_example[OF y d g p]
    obtain dn where g': "getValue 8 ex_root (- 1) None defaultGetOptions ?s2
        = Some (Inr (fst (projr (fst ?g)), dn), snd ?g)"
      using ex(3) by blast
    have p': "promiseOf (heap (pop ex_root (resultCount \<lparr>result = Yield, resultCount = 1\<rparr>) (snd ?g)))
                (fst (projr (fst ?g))) = Some ?pr"
      using p by simp
    have a': "await ?pr (pop ex_root (resultCount \<lparr>result = Yield, resultCount = 1\<rparr>) (snd ?g))
        = (Fulfils JUndefined, ?s4)"
      using f by (simp add: prod_eq_iff)
    have step: "run (Suc 8) ?M ex_root 0 ?S =
        (case resume ?M ex_root 0 ?s4 of
           (Inl e', s5) \<Rightarrow> Some (Inl e', s5)
         | (Inr r', s5) \<Rightarrow> runLoop 8 ?M ex_root r' s5)"
      using run_rejected_promise[OF ex(1) _ _ ex(2) g' p' a', of _ JUndefined]
      by simp
    have "map_option fst
            (case resume ?M ex_root 0 ?s4 of
               (Inl e', s5) \<Rightarrow> Some (Inl e', s5)
             | (Inr r', s5) \<Rightarrow> runLoop 8 ?M ex_root r' s5)
          = Some (Inr \<lparr>result = Ok, resultCount = 0\<rparr>)"
      by code_simp
    then show ?thesis
      unfolding step .
  qed
  show ?thesis
    using rejected fulfilled zero by simp
qed

text \<open>
  C4 as stated fails: the host function of the example returns a promise that rejects with
  \<open>boom\<close>; \<^verbatim>\<open>run\<close> throws \<open>boom\<close> after the one initial resumption and the guest stays
  suspended.
\<close>

theorem run_rejected_promise_counterexample:
  "map_option (\<lambda>r. (fst r, resumes (snd r)))
     (run 9 (ex_machine (JObject 1)) ex_root 0 (ex_with ex_heap))
   = Some (Inl (Rejection (JString ''boom'')), 1)"
  by code_simp



section \<open>One continuation per context\<close>














subsection \<open>The invariant through the whole bridge\<close>

text \<open>
  The operations of the bridge keep \<open>bridgeInvariant\<close>. A step that leaves the function table,
  the stored continuations and the identities alone keeps it.
\<close>

lemma bridgeInvariant_untouched:
  assumes "bridgeInvariant s"
      and "functionTable s' = functionTable s" "freeTableIndexes s' = freeTableIndexes s"
      and "tableLength s' = tableLength s" "continuance s' = continuance s"
      and "nextIdent s' = nextIdent s"
  shows "bridgeInvariant s'"
  using assms by (simp add: bridgeInvariant_def oneContinuance_def soundTable_def outstanding_def)

lemma bridgeInvariant_setStack [simp]: "bridgeInvariant (setStack L st s) = bridgeInvariant s"
  by (simp add: setStack_def bridgeInvariant_def oneContinuance_def soundTable_def outstanding_def)

lemma bridgeInvariant_push [simp]: "bridgeInvariant (lua_push L v s) = bridgeInvariant s"
  by (simp add: lua_push_def)

lemma bridgeInvariant_objects [simp]: "bridgeInvariant (s\<lparr>objects := ob\<rparr>) = bridgeInvariant s"
  by (simp add: bridgeInvariant_def oneContinuance_def soundTable_def outstanding_def)

lemma bridgeInvariant_heap [simp]: "bridgeInvariant (s\<lparr>heap := H\<rparr>) = bridgeInvariant s"
  by (simp add: bridgeInvariant_def oneContinuance_def soundTable_def outstanding_def)

lemma bridgeInvariant_pop [simp]: "bridgeInvariant (pop this k s) = bridgeInvariant s"
  by (simp add: pop_def lua_pop_def)


lemma bridgeInvariant_newObject [simp]: "bridgeInvariant (snd (newObject ob s)) = bridgeInvariant s"
  by (simp add: newObject_def bridgeInvariant_def oneContinuance_def soundTable_def outstanding_def)

lemma bridgeInvariant_newPointer [simp]: "bridgeInvariant (snd (newPointer p s)) = bridgeInvariant s"
  by (simp add: newPointer_def newHostObject_def bridgeInvariant_def oneContinuance_def
      soundTable_def outstanding_def)

lemma bridgeInvariant_getFunction [simp]: "bridgeInvariant (snd (getFunction this idx s)) = bridgeInvariant s"
  by (simp add: getFunction_def lua_pushvalue_def luaL_ref_def newHostObject_def lua_push_def setStack_def
      Let_def bridgeInvariant_def oneContinuance_def soundTable_def outstanding_def split: prod.splits)

lemma bridgeInvariant_getDefault [simp]: "bridgeInvariant (snd (getDefault this idx s)) = bridgeInvariant s"
  by (simp add: getDefault_def luaL_tolstring_def Let_def)








lemma bridgePart_stack [simp]:
  "bridgePart (setStack L st s) = bridgePart s"
  "bridgePart (lua_push L v s) = bridgePart s"
  "bridgePart (lua_pushnil L s) = bridgePart s"
  "bridgePart (lua_pushinteger L i s) = bridgePart s"
  "bridgePart (lua_pushnumber L x s) = bridgePart s"
  "bridgePart (lua_pushstring L t s) = bridgePart s"
  "bridgePart (lua_pushboolean L b s) = bridgePart s"
  "bridgePart (lua_pushvalue L idx s) = bridgePart s"
  "bridgePart (lua_pushthread L s) = bridgePart s"
  "bridgePart (lua_pop L k s) = bridgePart s"
  "bridgePart (pop this k s) = bridgePart s"
  by (simp_all add: bridgePart_def setStack_def lua_push_def lua_pushnil_def lua_pushinteger_def
      lua_pushnumber_def lua_pushstring_def lua_pushboolean_def lua_pushvalue_def lua_pushthread_def
      lua_pop_def pop_def)

lemma bridgePart_newObject [simp]: "bridgePart (snd (newObject ob s)) = bridgePart s"
  by (simp add: bridgePart_def newObject_def)

lemma bridgePart_field_objects [simp]: "bridgePart (s\<lparr>objects := ob\<rparr>) = bridgePart s"
  by (simp add: bridgePart_def)

lemma bridgePart_lua_createtable [simp]: "bridgePart (lua_createtable L s) = bridgePart s"
  by (simp add: lua_createtable_def newObject_def bridgePart_def lua_push_def setStack_def)

lemma bridgePart_lua_newuserdatauv [simp]: "bridgePart (snd (lua_newuserdatauv L s)) = bridgePart s"
  by (simp add: lua_newuserdatauv_def newObject_def bridgePart_def lua_push_def setStack_def)

lemma bridgePart_module_setValue [simp]: "bridgePart (module_setValue p v s) = bridgePart s"
  by (simp add: module_setValue_def split: option.splits lobject.splits)

lemma bridgePart_luaL_getmetatable [simp]: "bridgePart (snd (luaL_getmetatable L name s)) = bridgePart s"
  by (simp add: luaL_getmetatable_def split: option.splits)

lemma bridgePart_setMeta [simp]: "bridgePart (setMeta a mt s) = bridgePart s"
  by (simp add: setMeta_def split: option.splits lobject.splits)

lemma bridgePart_lua_setmetatable [simp]: "bridgePart (lua_setmetatable L idx s) = bridgePart s"
  by (simp add: lua_setmetatable_def Let_def split: option.splits lvalue.splits)

lemma bridgePart_lua_pushcclosure [simp]: "bridgePart (lua_pushcclosure L fn k s) = bridgePart s"
  by (simp add: lua_pushcclosure_def newObject_def Let_def bridgePart_def setStack_def)

lemma bridgePart_ref [simp]: "bridgePart (snd (ref x s)) = bridgePart s"
  by (simp add: ref_def bridgePart_def)

lemma bridgePart_unref [simp]: "bridgePart (unref h s) = bridgePart s"
  by (simp add: unref_def bridgePart_def)


lemma bridgePart_createAndPushJsReference [simp]:
  "bridgePart (snd (createAndPushJsReference this v s)) = bridgePart s"
proof -
  obtain pointer s1 where a: "ref v s = (pointer, s1)"
    by (cases "ref v s")
  obtain ud s2 where b: "lua_newuserdatauv (address this) s1 = (ud, s2)"
    by (cases "lua_newuserdatauv (address this) s1")
  obtain ty s4 where c: "luaL_getmetatable (address this) JsReference (module_setValue ud pointer s2) = (ty, s4)"
    by (cases "luaL_getmetatable (address this) JsReference (module_setValue ud pointer s2)")
  have "bridgePart s1 = bridgePart s"
    using bridgePart_ref[of v s] a by simp
  moreover have "bridgePart s2 = bridgePart s1"
    using bridgePart_lua_newuserdatauv[of "address this" s1] b by simp
  moreover have "bridgePart s4 = bridgePart s2"
    using bridgePart_luaL_getmetatable[of "address this" JsReference "module_setValue ud pointer s2"] c
    by simp
  ultimately show ?thesis
    using a b c by (simp add: createAndPushJsReference_def)
qed



lemma bridgePart_pushPromise [simp]:
  "bridgePart (snd (pushPromise this target s)) = bridgePart s"
proof -
  obtain pointer s1 where a: "ref target s = (pointer, s1)"
    by (cases "ref target s")
  obtain ud s2 where b: "lua_newuserdatauv (address this) s1 = (ud, s2)"
    by (cases "lua_newuserdatauv (address this) s1")
  obtain ty s4 where c: "luaL_getmetatable (address this) Promise (module_setValue ud pointer s2) = (ty, s4)"
    by (cases "luaL_getmetatable (address this) Promise (module_setValue ud pointer s2)")
  have "bridgePart s1 = bridgePart s"
    using bridgePart_ref[of target s] a by simp
  moreover have "bridgePart s2 = bridgePart s1"
    using bridgePart_lua_newuserdatauv[of "address this" s1] b by simp
  moreover have "bridgePart s4 = bridgePart s2"
    using bridgePart_luaL_getmetatable[of "address this" Promise "module_setValue ud pointer s2"] c
    by simp
  ultimately show ?thesis
    using a b c by (simp add: pushPromise_def)
qed


















lemma bridgePart_newResults [simp]: "bridgePart (snd (newResults s)) = bridgePart s"
  by (simp add: newResults_def bridgePart_def)















end
